theory Spec2Isabelle
  imports Complex_Main
begin

section \<open>The staging/production comparison script\<close>

text \<open>
  A shallow embedding of \<^verbatim>\<open>scripts/comparing-staging-production.ts\<close>: the comparison
  \<^verbatim>\<open>compareData\<close> with its helpers \<^verbatim>\<open>compareEmissions\<close>, \<^verbatim>\<open>compareScope3\<close>,
  \<^verbatim>\<open>compareTotalEmissions\<close>, \<^verbatim>\<open>compareEconomy\<close>, and the rows that
  \<^verbatim>\<open>generateCSV\<close> builds with \<^verbatim>\<open>resolveMatchOrDifference\<close>.
\<close>

subsection \<open>JavaScript values\<close>

text \<open>
  A property of a parsed JSON object is absent (\<^verbatim>\<open>undefined\<close>), \<^verbatim>\<open>null\<close>, or a value.
  The script tells the three apart (\<^verbatim>\<open>!== undefined\<close>, \<^verbatim>\<open>!= null\<close>, \<^verbatim>\<open>!x\<close>), so
  the model does too. On numbers, strings, \<^verbatim>\<open>null\<close> and \<^verbatim>\<open>undefined\<close> the strict
  equality \<^verbatim>\<open>===\<close> is equality of these values (JSON has no NaN).
\<close>

datatype 'a js = Undefined | Null | Val 'a

datatype error = TypeError

text \<open>\<^verbatim>\<open>x?.f\<close>: \<^verbatim>\<open>undefined\<close> when \<^verbatim>\<open>x\<close> is \<^verbatim>\<open>undefined\<close> or \<^verbatim>\<open>null\<close>.\<close>

definition optChain :: "'a js \<Rightarrow> ('a \<Rightarrow> 'b js) \<Rightarrow> 'b js" where
  "optChain x f = (case x of Val v \<Rightarrow> f v | _ \<Rightarrow> Undefined)"

text \<open>
  \<^verbatim>\<open>x.f\<close>, and iterating \<^verbatim>\<open>x\<close>: a \<^verbatim>\<open>TypeError\<close> is thrown when \<^verbatim>\<open>x\<close> is
  \<^verbatim>\<open>undefined\<close> or \<^verbatim>\<open>null\<close>.
\<close>

definition deref :: "'a js \<Rightarrow> error + 'a" where
  "deref x = (case x of Val v \<Rightarrow> Inr v | _ \<Rightarrow> Inl TypeError)"

text \<open>Truthiness of an object or array reference: \<^verbatim>\<open>!x\<close> holds for the two absent values only.\<close>

definition truthy :: "'a js \<Rightarrow> bool" where
  "truthy x = (case x of Val _ \<Rightarrow> True | _ \<Rightarrow> False)"

text \<open>\<^verbatim>\<open>x != null\<close> (loose inequality): false for \<^verbatim>\<open>null\<close> and for \<^verbatim>\<open>undefined\<close>.\<close>

definition notNullish :: "'a js \<Rightarrow> bool" where
  "notNullish x = (case x of Val _ \<Rightarrow> True | _ \<Rightarrow> False)"

text \<open>\<^verbatim>\<open>xs.find(p)\<close>: the first element satisfying \<^verbatim>\<open>p\<close>, or \<^verbatim>\<open>undefined\<close>.\<close>

definition findJs :: "('a \<Rightarrow> bool) \<Rightarrow> 'a list \<Rightarrow> 'a js" where
  "findJs p xs = (case List.find p xs of None \<Rightarrow> Undefined | Some x \<Rightarrow> Val x)"

subsection \<open>Printing\<close>

text \<open>
  JSON numbers are modelled as integers: the script only tests them for equality and
  prints them. \<^verbatim>\<open>showInt\<close> is the decimal notation that a template literal gives an
  integer-valued number.
\<close>

fun showNat :: "nat \<Rightarrow> string" where
  "showNat n =
     (if n < 10 then [''0123456789'' ! n]
      else showNat (n div 10) @ [''0123456789'' ! (n mod 10)])"

declare showNat.simps [simp del]

definition showInt :: "int \<Rightarrow> string" where
  "showInt i = (if i < 0 then ''-'' @ showNat (nat (- i)) else showNat (nat i))"

text \<open>The template literal \<^verbatim>\<open>`${x}`\<close> of a number property and of a string property.\<close>

definition numToString :: "int js \<Rightarrow> string" where
  "numToString x =
     (case x of Undefined \<Rightarrow> ''undefined'' | Null \<Rightarrow> ''null'' | Val n \<Rightarrow> showInt n)"

definition strToString :: "string js \<Rightarrow> string" where
  "strToString x =
     (case x of Undefined \<Rightarrow> ''undefined'' | Null \<Rightarrow> ''null'' | Val s \<Rightarrow> s)"

text \<open>
  \<^verbatim>\<open>new Intl.NumberFormat('en-US', { useGrouping: true }).format(amount)\<close> on an integer:
  the digits in groups of three, separated by commas (\<^verbatim>\<open>null\<close> formats as 0, \<^verbatim>\<open>undefined\<close>
  as NaN).
\<close>

fun groupThousands :: "string \<Rightarrow> string" where
  "groupThousands ds =
     (if length ds \<le> 3 then ds
      else groupThousands (take (length ds - 3) ds) @ '','' @ drop (length ds - 3) ds)"

declare groupThousands.simps [simp del]

definition numberFormat :: "int js \<Rightarrow> string" where
  "numberFormat x =
     (case x of
        Undefined \<Rightarrow> ''NaN''
      | Null \<Rightarrow> ''0''
      | Val n \<Rightarrow> (if n < 0 then ''-'' @ groupThousands (showNat (nat (- n)))
                  else groupThousands (showNat (nat n))))"

text \<open>\<^verbatim>\<open>formatCurrency\<close>: the grouped number with each comma replaced by a space, then the currency.\<close>

definition formatCurrency :: "int js \<Rightarrow> string js \<Rightarrow> string" where
  "formatCurrency amount currency =
     map (\<lambda>c. if c = CHR '','' then CHR '' '' else c) (numberFormat amount)
       @ '' '' @ strToString currency"

subsection \<open>The data model\<close>

text \<open>
  Modelled from the spec: the response schema \<^verbatim>\<open>src/api/schemas/response\<close>, which
  gives \<^verbatim>\<open>CompanyList\<close> its type and is not among the sources. The records follow the
  data model of the specification (section 3) and the properties that the script reads.
  A scope-1 or scope-2 block has the four fields total, mb, lb, unknown, "any subset may be
  absent"; every optional or nullable property is a \<^typ>\<open>'a js\<close>. The identifier, the
  name, the end date and the list of reporting periods are always present, and a category
  always has its number.
\<close>

record scope =
  scope_total :: "int js"
  scope_mb :: "int js"
  scope_lb :: "int js"
  scope_unknown :: "int js"

record statedTotal =
  stated_total :: "int js"

record category =
  cat_category :: int
  cat_total :: "int js"

record scope3 =
  s3_statedTotalEmissions :: "statedTotal js"
  s3_categories :: "category list js"

record emissions =
  em_scope1 :: "scope js"
  em_scope2 :: "scope js"
  em_scope3 :: "scope3 js"
  em_calculatedTotalEmissions :: "int js"
  em_statedTotalEmissions :: "statedTotal js"

record employees =
  employees_value :: "int js"

record turnover =
  turnover_value :: "int js"
  turnover_currency :: "string js"

record economy =
  eco_employees :: "employees js"
  eco_turnover :: "turnover js"

record reportingPeriod =
  rp_endDate :: string
  rp_emissions :: "emissions js"
  rp_economy :: "economy js"

record company =
  wikidataId :: string
  company_name :: string
  reportingPeriods :: "reportingPeriod list"

text \<open>
  A comparison result. \<^verbatim>\<open>compareData\<close> never assigns the property \<^verbatim>\<open>inStaging\<close>
  that \<^verbatim>\<open>generateCSV\<close> reads, so it is a \<^typ>\<open>bool js\<close>.
\<close>

record comparisonResult =
  res_name :: string
  matchedFields :: "string list"
  mismatchedFields :: "string list"
  accuracy :: rat
  res_note :: "string js"
  inStaging :: "bool js"

definition pushMatched :: "comparisonResult \<Rightarrow> string \<Rightarrow> comparisonResult" where
  "pushMatched r l = r\<lparr>matchedFields := matchedFields r @ [l]\<rparr>"

definition pushMismatched :: "comparisonResult \<Rightarrow> string \<Rightarrow> comparisonResult" where
  "pushMismatched r l = r\<lparr>mismatchedFields := mismatchedFields r @ [l]\<rparr>"

subsection \<open>compareEmissions\<close>

text \<open>\<^verbatim>\<open>scope[field]\<close> for a property name.\<close>

definition scopeField :: "scope \<Rightarrow> string \<Rightarrow> int js" where
  "scopeField s field =
     (if field = ''total'' then scope_total s
      else if field = ''mb'' then scope_mb s
      else if field = ''lb'' then scope_lb s
      else if field = ''unknown'' then scope_unknown s
      else Undefined)"

definition emissionsLabel :: "string \<Rightarrow> string \<Rightarrow> string \<Rightarrow> string" where
  "emissionsLabel scopeName field year = scopeName @ ''.'' @ field @ '': '' @ year"

text \<open>The loop over \<^verbatim>\<open>fields\<close> (here \<open>emissionFields\<close>); the state is the running count and the result.\<close>

fun emissionsLoop ::
  "string \<Rightarrow> scope js \<Rightarrow> scope js \<Rightarrow> string \<Rightarrow> string list \<Rightarrow>
     nat \<times> comparisonResult \<Rightarrow> nat \<times> comparisonResult" where
  "emissionsLoop scopeName prodScope stageScope year [] acc = acc"
| "emissionsLoop scopeName prodScope stageScope year (field # rest) (matchedFieldCount, r) =
     (let prodValue = optChain prodScope (\<lambda>s. scopeField s field);
          stageValue = optChain stageScope (\<lambda>s. scopeField s field)
      in if prodValue \<noteq> Undefined \<and> stageValue \<noteq> Undefined then
           if prodValue = stageValue then
             emissionsLoop scopeName prodScope stageScope year rest
               (matchedFieldCount + 1, pushMatched r (emissionsLabel scopeName field year))
           else
             emissionsLoop scopeName prodScope stageScope year rest
               (matchedFieldCount, pushMismatched r (emissionsLabel scopeName field year))
         else emissionsLoop scopeName prodScope stageScope year rest (matchedFieldCount, r))"

definition emissionFields :: "string list" where
  "emissionFields = [''total'', ''mb'', ''lb'', ''unknown'']"

definition compareEmissions ::
  "string \<Rightarrow> scope js \<Rightarrow> scope js \<Rightarrow> comparisonResult \<Rightarrow> string \<Rightarrow> nat \<times> comparisonResult" where
  "compareEmissions scopeName prodScope stageScope comparisonResult year =
     (if \<not> truthy prodScope \<and> \<not> truthy stageScope then (0, comparisonResult)
      else emissionsLoop scopeName prodScope stageScope year emissionFields (0, comparisonResult))"

subsection \<open>compareScope3\<close>

definition categoryLabel :: "category \<Rightarrow> string \<Rightarrow> string" where
  "categoryLabel c year = ''scope3.category='' @ showInt (cat_category c) @ '': '' @ year"

text \<open>
  The loop over \<^verbatim>\<open>prodScope3.categories\<close>. Each round reads
  \<^verbatim>\<open>stageScope3.categories.find(...)\<close> with plain property accesses, which throw on an
  absent \<^verbatim>\<open>stageScope3\<close> or an absent collection.
\<close>

fun categoryLoop ::
  "scope3 js \<Rightarrow> string \<Rightarrow> category list \<Rightarrow> nat \<times> comparisonResult \<Rightarrow>
     error + nat \<times> comparisonResult" where
  "categoryLoop stageScope3 year [] acc = Inr acc"
| "categoryLoop stageScope3 year (prodCategory # rest) (matchedFieldCount, r) =
     (case deref stageScope3 of
        Inl e \<Rightarrow> Inl e
      | Inr s3 \<Rightarrow>
          (case deref (s3_categories s3) of
             Inl e \<Rightarrow> Inl e
           | Inr stageCategories \<Rightarrow>
               (case findJs (\<lambda>cat. cat_category cat = cat_category prodCategory) stageCategories of
                  Val stageCategory \<Rightarrow>
                    if cat_total prodCategory = cat_total stageCategory then
                      categoryLoop stageScope3 year rest
                        (matchedFieldCount + 1, pushMatched r (categoryLabel prodCategory year))
                    else
                      categoryLoop stageScope3 year rest
                        (matchedFieldCount, pushMismatched r (categoryLabel prodCategory year))
                | _ \<Rightarrow>
                    categoryLoop stageScope3 year rest
                      (matchedFieldCount, pushMismatched r (categoryLabel prodCategory year)))))"

definition scope3StatedLabel :: "string \<Rightarrow> string" where
  "scope3StatedLabel year = ''scope3.statedTotalEmissions.total: '' @ year"

text \<open>The comparison of \<^verbatim>\<open>statedTotalEmissions?.total\<close> (the first block of the function).\<close>

definition scope3StatedTotal ::
  "scope3 js \<Rightarrow> scope3 js \<Rightarrow> string \<Rightarrow> nat \<times> comparisonResult \<Rightarrow> nat \<times> comparisonResult" where
  "scope3StatedTotal prodScope3 stageScope3 year acc =
     (let prodTotal = optChain (optChain prodScope3 s3_statedTotalEmissions) stated_total;
          stageTotal = optChain (optChain stageScope3 s3_statedTotalEmissions) stated_total
      in if prodTotal = stageTotal then
           if notNullish prodTotal then
             (fst acc + 1, pushMatched (snd acc) (scope3StatedLabel year))
           else acc
         else (fst acc, pushMismatched (snd acc) (scope3StatedLabel year)))"

definition compareScope3 ::
  "scope3 js \<Rightarrow> scope3 js \<Rightarrow> comparisonResult \<Rightarrow> string \<Rightarrow> error + nat \<times> comparisonResult" where
  "compareScope3 prodScope3 stageScope3 comparisonResult year =
     (if \<not> truthy prodScope3 \<and> \<not> truthy stageScope3 then Inr (0, comparisonResult)
      else
        let acc = scope3StatedTotal prodScope3 stageScope3 year (0, comparisonResult)
        in if truthy (optChain prodScope3 s3_categories) \<and> truthy (optChain stageScope3 s3_categories)
           then
             (case deref prodScope3 of
                Inl e \<Rightarrow> Inl e
              | Inr p3 \<Rightarrow>
                  (case deref (s3_categories p3) of
                     Inl e \<Rightarrow> Inl e
                   | Inr prodCategories \<Rightarrow> categoryLoop stageScope3 year prodCategories acc))
           else Inr acc)"

subsection \<open>compareTotalEmissions\<close>

definition calculatedLabel :: "string \<Rightarrow> string" where
  "calculatedLabel year = ''calculatedTotalEmissions: '' @ year"

definition statedLabel :: "string \<Rightarrow> string" where
  "statedLabel year = ''statedTotalEmissions.total: '' @ year"

definition compareTotalEmissions ::
  "emissions js \<Rightarrow> emissions js \<Rightarrow> comparisonResult \<Rightarrow> string \<Rightarrow> nat \<times> comparisonResult" where
  "compareTotalEmissions prodEmissions stageEmissions comparisonResult year =
     (let prodCalculated = optChain prodEmissions em_calculatedTotalEmissions;
          stageCalculated = optChain stageEmissions em_calculatedTotalEmissions;
          acc1 =
            (if prodCalculated = stageCalculated then
               if notNullish prodCalculated then
                 (1, pushMatched comparisonResult (calculatedLabel year))
               else (0, comparisonResult)
             else (0, pushMismatched comparisonResult (calculatedLabel year)));
          prodStated = optChain (optChain prodEmissions em_statedTotalEmissions) stated_total;
          stageStated = optChain (optChain stageEmissions em_statedTotalEmissions) stated_total
      in if prodStated = stageStated then
           if notNullish prodStated then
             (fst acc1 + 1, pushMatched (snd acc1) (statedLabel year))
           else acc1
         else (fst acc1, pushMismatched (snd acc1) (statedLabel year)))"

subsection \<open>compareEconomy\<close>

definition employeesMatchLabel :: "int js \<Rightarrow> string" where
  "employeesMatchLabel prodEmployees = ''employees: '' @ numToString prodEmployees"

definition employeesMismatchLabel :: "int js \<Rightarrow> int js \<Rightarrow> string" where
  "employeesMismatchLabel prodEmployees stageEmployees =
     ''employees: Production('' @ numToString prodEmployees
       @ '') vs Staging('' @ numToString stageEmployees @ '')''"

definition economyMatchLabel :: "string \<Rightarrow> string" where
  "economyMatchLabel formattedProdEconomy = ''economy: '' @ formattedProdEconomy"

definition economyMismatchLabel :: "string \<Rightarrow> string \<Rightarrow> string" where
  "economyMismatchLabel formattedProdEconomy formattedStageEconomy =
     ''economy: Production('' @ formattedProdEconomy
       @ '') vs Staging('' @ formattedStageEconomy @ '')''"

definition compareEconomy ::
  "economy js \<Rightarrow> economy js \<Rightarrow> comparisonResult \<Rightarrow> string \<Rightarrow> nat \<times> comparisonResult" where
  "compareEconomy prodEconomy stageEconomy comparisonResult year =
     (let prodEmployees = optChain (optChain prodEconomy eco_employees) employees_value;
          stageEmployees = optChain (optChain stageEconomy eco_employees) employees_value;
          acc1 =
            (if prodEmployees \<noteq> Undefined \<and> stageEmployees \<noteq> Undefined then
               if prodEmployees = stageEmployees then
                 (1, pushMatched comparisonResult (employeesMatchLabel prodEmployees))
               else
                 (0, pushMismatched comparisonResult
                       (employeesMismatchLabel prodEmployees stageEmployees))
             else (0, comparisonResult));
          prodEconomyValue = optChain (optChain prodEconomy eco_turnover) turnover_value;
          prodEconomyCurrency = optChain (optChain prodEconomy eco_turnover) turnover_currency;
          stageEconomyValue = optChain (optChain stageEconomy eco_turnover) turnover_value;
          stageEconomyCurrency = optChain (optChain stageEconomy eco_turnover) turnover_currency
      in if prodEconomyValue \<noteq> Undefined \<and> stageEconomyValue \<noteq> Undefined then
           let formattedProdEconomy = formatCurrency prodEconomyValue prodEconomyCurrency;
               formattedStageEconomy = formatCurrency stageEconomyValue stageEconomyCurrency
           in if prodEconomyValue = stageEconomyValue \<and> prodEconomyCurrency = stageEconomyCurrency
              then (fst acc1 + 1, pushMatched (snd acc1) (economyMatchLabel formattedProdEconomy))
              else (fst acc1, pushMismatched (snd acc1)
                      (economyMismatchLabel formattedProdEconomy formattedStageEconomy))
         else acc1)"

subsection \<open>compareData\<close>

text \<open>
  The local variables of the loop over the reporting periods of one production company:
  \<^verbatim>\<open>matchedFieldCount\<close>, \<^verbatim>\<open>totalFieldCount\<close> and the \<^verbatim>\<open>comparisonResult\<close> under
  construction.
\<close>

record scoring =
  matchedFieldCount :: nat
  totalFieldCount :: nat
  result :: comparisonResult

text \<open>
  The five pairs of statements of the loop body: a helper is called on the two periods, its
  count is added to \<^verbatim>\<open>matchedFieldCount\<close>, and \<^verbatim>\<open>totalFieldCount\<close> grows by the
  weight of the section.
\<close>

definition scope1Step :: "reportingPeriod \<Rightarrow> reportingPeriod \<Rightarrow> string \<Rightarrow> scoring \<Rightarrow> scoring" where
  "scope1Step prodReportingPeriod stageReportingPeriod year st =
     (let (n, r) = compareEmissions ''scope1''
                     (optChain (rp_emissions prodReportingPeriod) em_scope1)
                     (optChain (rp_emissions stageReportingPeriod) em_scope1) (result st) year
      in \<lparr>matchedFieldCount = matchedFieldCount st + n,
          totalFieldCount = totalFieldCount st + 1, result = r\<rparr>)"

definition scope2Step :: "reportingPeriod \<Rightarrow> reportingPeriod \<Rightarrow> string \<Rightarrow> scoring \<Rightarrow> scoring" where
  "scope2Step prodReportingPeriod stageReportingPeriod year st =
     (let (n, r) = compareEmissions ''scope2''
                     (optChain (rp_emissions prodReportingPeriod) em_scope2)
                     (optChain (rp_emissions stageReportingPeriod) em_scope2) (result st) year
      in \<lparr>matchedFieldCount = matchedFieldCount st + n,
          totalFieldCount = totalFieldCount st + 3, result = r\<rparr>)"

text \<open>\<^verbatim>\<open>prodReportingPeriod.emissions?.scope3?.categories?.length || 0\<close>\<close>

definition categoriesLength :: "reportingPeriod \<Rightarrow> nat" where
  "categoriesLength prodReportingPeriod =
     (case optChain (optChain (rp_emissions prodReportingPeriod) em_scope3) s3_categories of
        Val cs \<Rightarrow> length cs
      | _ \<Rightarrow> 0)"

definition scope3Step ::
  "reportingPeriod \<Rightarrow> reportingPeriod \<Rightarrow> string \<Rightarrow> scoring \<Rightarrow> error + scoring" where
  "scope3Step prodReportingPeriod stageReportingPeriod year st =
     (case compareScope3 (optChain (rp_emissions prodReportingPeriod) em_scope3)
             (optChain (rp_emissions stageReportingPeriod) em_scope3) (result st) year of
        Inl e \<Rightarrow> Inl e
      | Inr (n, r) \<Rightarrow>
          Inr \<lparr>matchedFieldCount = matchedFieldCount st + n,
               totalFieldCount = totalFieldCount st + (categoriesLength prodReportingPeriod + 1),
               result = r\<rparr>)"

definition totalEmissionsStep ::
  "reportingPeriod \<Rightarrow> reportingPeriod \<Rightarrow> string \<Rightarrow> scoring \<Rightarrow> scoring" where
  "totalEmissionsStep prodReportingPeriod stageReportingPeriod year st =
     (let (n, r) = compareTotalEmissions (rp_emissions prodReportingPeriod)
                     (rp_emissions stageReportingPeriod) (result st) year
      in \<lparr>matchedFieldCount = matchedFieldCount st + n,
          totalFieldCount = totalFieldCount st + 2, result = r\<rparr>)"

definition economyStep ::
  "reportingPeriod \<Rightarrow> reportingPeriod \<Rightarrow> string \<Rightarrow> scoring \<Rightarrow> scoring" where
  "economyStep prodReportingPeriod stageReportingPeriod year st =
     (let (n, r) = compareEconomy (rp_economy prodReportingPeriod)
                     (rp_economy stageReportingPeriod) (result st) year
      in \<lparr>matchedFieldCount = matchedFieldCount st + n,
          totalFieldCount = totalFieldCount st + 2, result = r\<rparr>)"

text \<open>
  One round of the loop over \<^verbatim>\<open>prodCompany.reportingPeriods\<close>. The function
  \<^verbatim>\<open>formatYear\<close> (\<^verbatim>\<open>new Date(date).getFullYear().toString()\<close>) belongs to the runtime and
  its time zone; it is a parameter of the model. The properties of \<^verbatim>\<open>stageCompany\<close> and
  of \<^verbatim>\<open>stageReportingPeriod\<close>, both results of \<^verbatim>\<open>find\<close>, are read with plain accesses.
\<close>

definition periodLabel :: "string \<Rightarrow> string" where
  "periodLabel year = ''Reporting period: '' @ year"

definition comparePeriod ::
  "(string \<Rightarrow> string) \<Rightarrow> company js \<Rightarrow> reportingPeriod \<Rightarrow> scoring \<Rightarrow> error + scoring" where
  "comparePeriod formatYear stageCompany prodReportingPeriod st =
     (case deref stageCompany of
        Inl e \<Rightarrow> Inl e
      | Inr sc \<Rightarrow>
          let stageReportingPeriod =
                findJs (\<lambda>rp. formatYear (rp_endDate rp) = formatYear (rp_endDate prodReportingPeriod))
                  (reportingPeriods sc);
              year = formatYear (rp_endDate prodReportingPeriod)
          in if \<not> truthy stageReportingPeriod then
               Inr (st\<lparr>result := pushMismatched (result st) (periodLabel year)\<rparr>)
             else
               (case deref stageReportingPeriod of
                  Inl e \<Rightarrow> Inl e
                | Inr srp \<Rightarrow>
                    (case scope3Step prodReportingPeriod srp year
                            (scope2Step prodReportingPeriod srp year
                               (scope1Step prodReportingPeriod srp year st)) of
                       Inl e \<Rightarrow> Inl e
                     | Inr st3 \<Rightarrow>
                         Inr (economyStep prodReportingPeriod srp year
                                (totalEmissionsStep prodReportingPeriod srp year st3)))))"

fun periodLoop ::
  "(string \<Rightarrow> string) \<Rightarrow> company js \<Rightarrow> reportingPeriod list \<Rightarrow> scoring \<Rightarrow> error + scoring" where
  "periodLoop formatYear stageCompany [] st = Inr st"
| "periodLoop formatYear stageCompany (prodReportingPeriod # rest) st =
     (case comparePeriod formatYear stageCompany prodReportingPeriod st of
        Inl e \<Rightarrow> Inl e
      | Inr st' \<Rightarrow> periodLoop formatYear stageCompany rest st')"

text \<open>
  The accuracy is computed in double precision. A double is modelled by the rational number
  it denotes, and an operation by the exact result rounded to the nearest double, ties to
  the even significand (IEEE 754 binary64). \<open>binade n e x\<close> searches downwards from
  \<open>e\<close> for the exponent of \<open>x\<close>; \<open>exponentOf\<close> starts at 1023 and stops at - 1022,
  the exponent of the subnormal numbers, so the spacing of the doubles around \<open>x\<close> is
  \<open>2 powi (exponentOf x - 52)\<close>. The counters are integers; they grow by at most one
  for each field compared and are taken to stay below \<open>2 ^ 53\<close>, where a double holds
  every integer exactly. Overflow to Infinity is left out: the quotient of two such
  counters times 100 is far from \<open>2 powi 1024\<close>.
\<close>

definition roundHalfEven :: "rat \<Rightarrow> int" where
  "roundHalfEven y =
     (let f = \<lfloor>y\<rfloor>; r = y - of_int f
      in if r < 1 / 2 then f else if 1 / 2 < r then f + 1 else if even f then f else f + 1)"

fun binade :: "nat \<Rightarrow> int \<Rightarrow> rat \<Rightarrow> int" where
  "binade 0 e x = e"
| "binade (Suc n) e x = (if 2 powi e \<le> x then e else binade n (e - 1) x)"

definition exponentOf :: "rat \<Rightarrow> int" where
  "exponentOf x = binade 2045 1023 x"

definition roundMagnitude :: "rat \<Rightarrow> rat" where
  "roundMagnitude x =
     of_int (roundHalfEven (x / 2 powi (exponentOf x - 52))) * 2 powi (exponentOf x - 52)"

definition roundDouble :: "rat \<Rightarrow> rat" where
  "roundDouble x = (if x < 0 then - roundMagnitude (- x) else roundMagnitude x)"

text \<open>
  \<^verbatim>\<open>x.toFixed(2)\<close> prints the decimal \<open>n / 100\<close> for the integer \<open>n\<close> that makes
  \<open>n / 100 - x\<close> closest to zero, the larger \<open>n\<close> at a tie, where \<open>x\<close> is the exact
  value of the double; \<open>toFixed2\<close> is that \<open>n\<close>. \<^verbatim>\<open>parseFloat\<close> reads the decimal
  back as the nearest double.
\<close>

definition toFixed2 :: "rat \<Rightarrow> int" where
  "toFixed2 x = (if x < 0 then - \<lfloor>- x * 100 + 1 / 2\<rfloor> else \<lfloor>x * 100 + 1 / 2\<rfloor>)"

definition parseFloat :: "int \<Rightarrow> rat" where
  "parseFloat n = roundDouble (of_int n / 100)"

text \<open>\<^verbatim>\<open>(matchedFieldCount / totalFieldCount) * 100\<close>: a division and a multiplication of doubles.\<close>

definition percentage :: "nat \<Rightarrow> nat \<Rightarrow> rat" where
  "percentage m t = roundDouble (roundDouble (of_nat m / of_nat t) * 100)"

definition calculateAccuracy :: "scoring \<Rightarrow> rat" where
  "calculateAccuracy st =
     (if totalFieldCount st > 0 then
        parseFloat (toFixed2 (percentage (matchedFieldCount st) (totalFieldCount st)))
      else 0)"

definition noteFor :: "comparisonResult \<Rightarrow> string" where
  "noteFor r =
     (if length (mismatchedFields r) = 0 then ''All data matches between production and staging''
      else ''Partial mismatch or missing data between production and staging'')"

definition notInStaging :: "company \<Rightarrow> comparisonResult" where
  "notInStaging prodCompany =
     \<lparr>res_name = company_name prodCompany, matchedFields = [],
      mismatchedFields = [''Company does not exist in staging''], accuracy = 0,
      res_note = Val ''Exists in production but not in staging'', inStaging = Undefined\<rparr>"

definition initialScoring :: "company \<Rightarrow> scoring" where
  "initialScoring prodCompany =
     \<lparr>matchedFieldCount = 0, totalFieldCount = 0,
      result = \<lparr>res_name = company_name prodCompany, matchedFields = [], mismatchedFields = [],
                 accuracy = 0, res_note = Undefined, inStaging = Undefined\<rparr>\<rparr>"

text \<open>One round of the loop over \<^verbatim>\<open>productionData\<close>: the result pushed for \<^verbatim>\<open>prodCompany\<close>.\<close>

definition compareCompany ::
  "(string \<Rightarrow> string) \<Rightarrow> company list \<Rightarrow> company \<Rightarrow> error + comparisonResult" where
  "compareCompany formatYear stagingData prodCompany =
     (let stageCompany = findJs (\<lambda>comp. wikidataId comp = wikidataId prodCompany) stagingData
      in if \<not> truthy stageCompany then Inr (notInStaging prodCompany)
         else
           (case periodLoop formatYear stageCompany (reportingPeriods prodCompany)
                   (initialScoring prodCompany) of
              Inl e \<Rightarrow> Inl e
            | Inr st \<Rightarrow>
                Inr ((result st)\<lparr>accuracy := calculateAccuracy st,
                                 res_note := Val (noteFor (result st))\<rparr>)))"

fun companyLoop ::
  "(string \<Rightarrow> string) \<Rightarrow> company list \<Rightarrow> company list \<Rightarrow> comparisonResult list \<Rightarrow>
     error + comparisonResult list" where
  "companyLoop formatYear stagingData [] comparisonResults = Inr comparisonResults"
| "companyLoop formatYear stagingData (prodCompany # rest) comparisonResults =
     (case compareCompany formatYear stagingData prodCompany of
        Inl e \<Rightarrow> Inl e
      | Inr r \<Rightarrow> companyLoop formatYear stagingData rest (comparisonResults @ [r]))"

definition compareData ::
  "(string \<Rightarrow> string) \<Rightarrow> company list \<Rightarrow> company list \<Rightarrow> error + comparisonResult list" where
  "compareData formatYear stagingData productionData =
     companyLoop formatYear stagingData productionData []"

subsection \<open>generateCSV\<close>

text \<open>
  The entries of \<^verbatim>\<open>mismatchedFields\<close> that \<^verbatim>\<open>compareData\<close> pushes are strings, and
  \<^verbatim>\<open>generateCSV\<close> reads their properties \<^verbatim>\<open>field\<close>, \<^verbatim>\<open>production\<close> and
  \<^verbatim>\<open>staging\<close>. A string has none of the three, so each read gives \<^verbatim>\<open>undefined\<close>.
\<close>

definition stringProperty :: "string \<Rightarrow> string \<Rightarrow> string js" where
  "stringProperty s p = Undefined"

text \<open>\<^verbatim>\<open>x || d\<close> on a string property: \<^verbatim>\<open>d\<close> when \<^verbatim>\<open>x\<close> is absent or empty.\<close>

definition orElse :: "string js \<Rightarrow> string \<Rightarrow> string" where
  "orElse x d = (case x of Val s \<Rightarrow> (if s = [] then d else s) | _ \<Rightarrow> d)"

text \<open>The \<^verbatim>\<open>reduce\<close> that builds \<^verbatim>\<open>mismatchedMap\<close>; a property key is its string.\<close>

definition mismatchedMapOf :: "string list \<Rightarrow> (string \<rightharpoonup> string \<times> string)" where
  "mismatchedMapOf fs =
     fold (\<lambda>field acc.
             acc(strToString (stringProperty field ''field'') \<mapsto>
                   (orElse (stringProperty field ''production'') ''N/A'',
                    orElse (stringProperty field ''staging'') ''N/A'')))
       fs Map.empty"

definition startsWith :: "string \<Rightarrow> string \<Rightarrow> bool" where
  "startsWith s p = (take (length p) s = p)"

definition resolveMatchOrDifference ::
  "string \<Rightarrow> (string \<rightharpoonup> string \<times> string) \<Rightarrow> string list \<Rightarrow> string" where
  "resolveMatchOrDifference fieldName mismatchedMap matched =
     (case mismatchedMap fieldName of
        Some (prodValue, stageValue) \<Rightarrow>
          ''Production: '' @ prodValue @ '', Staging: '' @ stageValue
      | None \<Rightarrow>
          (case findJs (\<lambda>field. startsWith field fieldName) matched of
             Val matchedField \<Rightarrow> (if matchedField \<noteq> [] then ''Yes'' else ''N/A'')
           | _ \<Rightarrow> ''N/A''))"

record csvRow =
  csv_name :: string
  csv_inStaging :: string
  csv_scope1 :: string
  csv_scope2 :: string
  csv_scope3 :: string
  csv_employees :: string
  csv_economy :: string
  csv_accuracy :: rat

text \<open>The row built for one result; \<^verbatim>\<open>generateCSV\<close> maps it over the results.\<close>

definition csvRowOf :: "comparisonResult \<Rightarrow> csvRow" where
  "csvRowOf r =
     (let mismatchedMap = mismatchedMapOf (mismatchedFields r)
      in \<lparr>csv_name = res_name r,
          csv_inStaging = (if inStaging r = Val True then ''Yes'' else ''No''),
          csv_scope1 = resolveMatchOrDifference ''scope1'' mismatchedMap (matchedFields r),
          csv_scope2 = resolveMatchOrDifference ''scope2'' mismatchedMap (matchedFields r),
          csv_scope3 = resolveMatchOrDifference ''scope3'' mismatchedMap (matchedFields r),
          csv_employees = resolveMatchOrDifference ''employees'' mismatchedMap (matchedFields r),
          csv_economy = resolveMatchOrDifference ''economy'' mismatchedMap (matchedFields r),
          csv_accuracy = accuracy r\<rparr>)"

definition generateCSV :: "comparisonResult list \<Rightarrow> csvRow list" where
  "generateCSV results = map csvRowOf results"

section \<open>The entries and counts that the comparison produces\<close>

text \<open>
  The loops and branches above are compared with closed descriptions of what they append:
  for each helper the list of labels it adds to \<open>matchedFields\<close> and the list it adds
  to \<open>mismatchedFields\<close>. The lemmas of the next section prove that the functions
  translated from the script compute exactly these lists.
\<close>

definition extend :: "comparisonResult \<Rightarrow> string list \<Rightarrow> string list \<Rightarrow> comparisonResult" where
  "extend r ms xs = r\<lparr>matchedFields := matchedFields r @ ms, mismatchedFields := mismatchedFields r @ xs\<rparr>"

definition fieldOf :: "scope js \<Rightarrow> string \<Rightarrow> int js" where
  "fieldOf x f = optChain x (\<lambda>s. scopeField s f)"

definition matchEntry :: "'a js \<Rightarrow> 'a js \<Rightarrow> string \<Rightarrow> string list" where
  "matchEntry a b l = (if a = b \<and> notNullish a then [l] else [])"

definition mismatchEntry :: "'a js \<Rightarrow> 'a js \<Rightarrow> string \<Rightarrow> string list" where
  "mismatchEntry a b l = (if a \<noteq> b then [l] else [])"

definition fieldMatches :: "scope js \<Rightarrow> scope js \<Rightarrow> string \<Rightarrow> bool" where
  "fieldMatches p s f =
     (fieldOf p f \<noteq> Undefined \<and> fieldOf s f \<noteq> Undefined \<and> fieldOf p f = fieldOf s f)"

definition fieldDiffers :: "scope js \<Rightarrow> scope js \<Rightarrow> string \<Rightarrow> bool" where
  "fieldDiffers p s f =
     (fieldOf p f \<noteq> Undefined \<and> fieldOf s f \<noteq> Undefined \<and> fieldOf p f \<noteq> fieldOf s f)"

definition emissionsMatched :: "string \<Rightarrow> scope js \<Rightarrow> scope js \<Rightarrow> string \<Rightarrow> string list" where
  "emissionsMatched sn p s y =
     map (\<lambda>f. emissionsLabel sn f y) (filter (fieldMatches p s) emissionFields)"

definition emissionsMismatched :: "string \<Rightarrow> scope js \<Rightarrow> scope js \<Rightarrow> string \<Rightarrow> string list" where
  "emissionsMismatched sn p s y =
     map (\<lambda>f. emissionsLabel sn f y) (filter (fieldDiffers p s) emissionFields)"

definition catMatches :: "category list \<Rightarrow> category \<Rightarrow> bool" where
  "catMatches scs c =
     (case List.find (\<lambda>cat. cat_category cat = cat_category c) scs of
        None \<Rightarrow> False | Some sc \<Rightarrow> cat_total c = cat_total sc)"

definition scope3StatedOf :: "scope3 js \<Rightarrow> int js" where
  "scope3StatedOf x = optChain (optChain x s3_statedTotalEmissions) stated_total"

definition scope3Matched :: "scope3 js \<Rightarrow> scope3 js \<Rightarrow> string \<Rightarrow> string list" where
  "scope3Matched p s y =
     matchEntry (scope3StatedOf p) (scope3StatedOf s) (scope3StatedLabel y)
     @ (case (optChain p s3_categories, optChain s s3_categories) of
          (Val pcs, Val scs) \<Rightarrow> map (\<lambda>c. categoryLabel c y) (filter (catMatches scs) pcs)
        | _ \<Rightarrow> [])"

definition scope3Mismatched :: "scope3 js \<Rightarrow> scope3 js \<Rightarrow> string \<Rightarrow> string list" where
  "scope3Mismatched p s y =
     mismatchEntry (scope3StatedOf p) (scope3StatedOf s) (scope3StatedLabel y)
     @ (case (optChain p s3_categories, optChain s s3_categories) of
          (Val pcs, Val scs) \<Rightarrow> map (\<lambda>c. categoryLabel c y) (filter (\<lambda>c. \<not> catMatches scs c) pcs)
        | _ \<Rightarrow> [])"

definition statedOf :: "emissions js \<Rightarrow> int js" where
  "statedOf x = optChain (optChain x em_statedTotalEmissions) stated_total"

definition totalEmissionsMatched :: "emissions js \<Rightarrow> emissions js \<Rightarrow> string \<Rightarrow> string list" where
  "totalEmissionsMatched p s y =
     matchEntry (optChain p em_calculatedTotalEmissions) (optChain s em_calculatedTotalEmissions)
       (calculatedLabel y)
     @ matchEntry (statedOf p) (statedOf s) (statedLabel y)"

definition totalEmissionsMismatched :: "emissions js \<Rightarrow> emissions js \<Rightarrow> string \<Rightarrow> string list" where
  "totalEmissionsMismatched p s y =
     mismatchEntry (optChain p em_calculatedTotalEmissions) (optChain s em_calculatedTotalEmissions)
       (calculatedLabel y)
     @ mismatchEntry (statedOf p) (statedOf s) (statedLabel y)"

definition employeesOf :: "economy js \<Rightarrow> int js" where
  "employeesOf x = optChain (optChain x eco_employees) employees_value"

definition turnoverValueOf :: "economy js \<Rightarrow> int js" where
  "turnoverValueOf x = optChain (optChain x eco_turnover) turnover_value"

definition turnoverCurrencyOf :: "economy js \<Rightarrow> string js" where
  "turnoverCurrencyOf x = optChain (optChain x eco_turnover) turnover_currency"

definition economyMatched :: "economy js \<Rightarrow> economy js \<Rightarrow> string list" where
  "economyMatched p s =
     (if employeesOf p \<noteq> Undefined \<and> employeesOf s \<noteq> Undefined \<and> employeesOf p = employeesOf s
      then [employeesMatchLabel (employeesOf p)] else [])
     @ (if turnoverValueOf p \<noteq> Undefined \<and> turnoverValueOf s \<noteq> Undefined
           \<and> turnoverValueOf p = turnoverValueOf s \<and> turnoverCurrencyOf p = turnoverCurrencyOf s
        then [economyMatchLabel (formatCurrency (turnoverValueOf p) (turnoverCurrencyOf p))] else [])"

definition economyMismatched :: "economy js \<Rightarrow> economy js \<Rightarrow> string list" where
  "economyMismatched p s =
     (if employeesOf p \<noteq> Undefined \<and> employeesOf s \<noteq> Undefined \<and> employeesOf p \<noteq> employeesOf s
      then [employeesMismatchLabel (employeesOf p) (employeesOf s)] else [])
     @ (if turnoverValueOf p \<noteq> Undefined \<and> turnoverValueOf s \<noteq> Undefined
           \<and> \<not> (turnoverValueOf p = turnoverValueOf s \<and> turnoverCurrencyOf p = turnoverCurrencyOf s)
        then [economyMismatchLabel (formatCurrency (turnoverValueOf p) (turnoverCurrencyOf p))
                (formatCurrency (turnoverValueOf s) (turnoverCurrencyOf s))]
        else [])"

definition periodMatched :: "reportingPeriod \<Rightarrow> reportingPeriod \<Rightarrow> string \<Rightarrow> string list" where
  "periodMatched p s y =
     emissionsMatched ''scope1'' (optChain (rp_emissions p) em_scope1) (optChain (rp_emissions s) em_scope1) y
     @ emissionsMatched ''scope2'' (optChain (rp_emissions p) em_scope2) (optChain (rp_emissions s) em_scope2) y
     @ scope3Matched (optChain (rp_emissions p) em_scope3) (optChain (rp_emissions s) em_scope3) y
     @ totalEmissionsMatched (rp_emissions p) (rp_emissions s) y
     @ economyMatched (rp_economy p) (rp_economy s)"

definition periodMismatched :: "reportingPeriod \<Rightarrow> reportingPeriod \<Rightarrow> string \<Rightarrow> string list" where
  "periodMismatched p s y =
     emissionsMismatched ''scope1'' (optChain (rp_emissions p) em_scope1) (optChain (rp_emissions s) em_scope1) y
     @ emissionsMismatched ''scope2'' (optChain (rp_emissions p) em_scope2) (optChain (rp_emissions s) em_scope2) y
     @ scope3Mismatched (optChain (rp_emissions p) em_scope3) (optChain (rp_emissions s) em_scope3) y
     @ totalEmissionsMismatched (rp_emissions p) (rp_emissions s) y
     @ economyMismatched (rp_economy p) (rp_economy s)"

definition periodStep :: "(string \<Rightarrow> string) \<Rightarrow> company \<Rightarrow> scoring \<Rightarrow> reportingPeriod \<Rightarrow> scoring" where
  "periodStep fy sc st p =
     (case List.find (\<lambda>rp. fy (rp_endDate rp) = fy (rp_endDate p)) (reportingPeriods sc) of
        None \<Rightarrow> st\<lparr>result := extend (result st) [] [periodLabel (fy (rp_endDate p))]\<rparr>
      | Some srp \<Rightarrow>
          \<lparr>matchedFieldCount = matchedFieldCount st + length (periodMatched p srp (fy (rp_endDate p))),
           totalFieldCount = totalFieldCount st + (9 + categoriesLength p),
           result = extend (result st) (periodMatched p srp (fy (rp_endDate p)))
                      (periodMismatched p srp (fy (rp_endDate p)))\<rparr>)"

definition finishResult :: "scoring \<Rightarrow> comparisonResult" where
  "finishResult st =
     (result st)\<lparr>accuracy := calculateAccuracy st, res_note := Val (noteFor (result st))\<rparr>"

definition companyResult :: "(string \<Rightarrow> string) \<Rightarrow> company list \<Rightarrow> company \<Rightarrow> comparisonResult" where
  "companyResult fy stagingData p =
     (case List.find (\<lambda>comp. wikidataId comp = wikidataId p) stagingData of
        None \<Rightarrow> notInStaging p
      | Some sc \<Rightarrow> finishResult (foldl (periodStep fy sc) (initialScoring p) (reportingPeriods p)))"

subsection \<open>Conditions on a reporting period\<close>

text \<open>
  \<open>countedFieldsOnly\<close>: the scope-1 block defines none of mb, lb, unknown and the scope-2
  block does not define total. \<open>distinctCategories\<close>: the numbers of the scope-3
  categories are pairwise distinct. \<open>populated\<close>: every field that the weights of
  \<open>totalFieldCount\<close> count is present, and no other field of scope 1 and 2.
\<close>

definition scope1Of :: "reportingPeriod \<Rightarrow> scope js" where
  "scope1Of p = optChain (rp_emissions p) em_scope1"

definition scope2Of :: "reportingPeriod \<Rightarrow> scope js" where
  "scope2Of p = optChain (rp_emissions p) em_scope2"

definition scope3Of :: "reportingPeriod \<Rightarrow> scope3 js" where
  "scope3Of p = optChain (rp_emissions p) em_scope3"

definition countedFieldsOnly :: "reportingPeriod \<Rightarrow> bool" where
  "countedFieldsOnly p =
     (fieldOf (scope1Of p) ''mb'' = Undefined \<and> fieldOf (scope1Of p) ''lb'' = Undefined
      \<and> fieldOf (scope1Of p) ''unknown'' = Undefined \<and> fieldOf (scope2Of p) ''total'' = Undefined)"

definition distinctCategories :: "reportingPeriod \<Rightarrow> bool" where
  "distinctCategories p =
     (case optChain (scope3Of p) s3_categories of
        Val cs \<Rightarrow> distinct (map cat_category cs)
      | _ \<Rightarrow> True)"

definition populated :: "reportingPeriod \<Rightarrow> bool" where
  "populated p =
     (countedFieldsOnly p
      \<and> fieldOf (scope1Of p) ''total'' \<noteq> Undefined
      \<and> fieldOf (scope2Of p) ''mb'' \<noteq> Undefined \<and> fieldOf (scope2Of p) ''lb'' \<noteq> Undefined
      \<and> fieldOf (scope2Of p) ''unknown'' \<noteq> Undefined
      \<and> notNullish (scope3StatedOf (scope3Of p)) \<and> truthy (optChain (scope3Of p) s3_categories)
      \<and> notNullish (optChain (rp_emissions p) em_calculatedTotalEmissions)
      \<and> notNullish (statedOf (rp_emissions p))
      \<and> employeesOf (rp_economy p) \<noteq> Undefined \<and> turnoverValueOf (rp_economy p) \<noteq> Undefined)"

section \<open>Example data\<close>

text \<open>The concrete datasets of the instances and counterexamples below.\<close>

definition exampleAbsent :: company where
  "exampleAbsent = \<lparr>wikidataId = ''Q1'', company_name = ''Acme'', reportingPeriods = []\<rparr>"

definition exampleOther :: company where
  "exampleOther = \<lparr>wikidataId = ''Q2'', company_name = ''Bolt'', reportingPeriods = []\<rparr>"

definition examplePeriod2021 :: reportingPeriod where
  "examplePeriod2021 =
     \<lparr>rp_endDate = ''2021-12-31'', rp_emissions = Undefined, rp_economy = Undefined\<rparr>"

definition examplePeriod2022 :: reportingPeriod where
  "examplePeriod2022 =
     \<lparr>rp_endDate = ''2022-12-31'', rp_emissions = Undefined, rp_economy = Undefined\<rparr>"

definition exampleStage2021 :: company where
  "exampleStage2021 =
     \<lparr>wikidataId = ''Q1'', company_name = ''Acme'', reportingPeriods = [examplePeriod2021]\<rparr>"

definition exampleResult :: comparisonResult where
  "exampleResult =
     \<lparr>res_name = ''Acme'', matchedFields = [], mismatchedFields = [], accuracy = 0,
      res_note = Undefined, inStaging = Undefined\<rparr>"

definition exampleProdScope :: scope where
  "exampleProdScope =
     \<lparr>scope_total = Val 100, scope_mb = Val 5, scope_lb = Undefined, scope_unknown = Undefined\<rparr>"

definition exampleStageScope :: scope where
  "exampleStageScope =
     \<lparr>scope_total = Val 100, scope_mb = Val 6, scope_lb = Val 7, scope_unknown = Undefined\<rparr>"

definition exampleProdScope3 :: scope3 where
  "exampleProdScope3 =
     \<lparr>s3_statedTotalEmissions = Undefined,
      s3_categories = Val [\<lparr>cat_category = 1, cat_total = Val 10\<rparr>,
                           \<lparr>cat_category = 2, cat_total = Val 20\<rparr>,
                           \<lparr>cat_category = 3, cat_total = Val 30\<rparr>]\<rparr>"

definition exampleStageScope3 :: scope3 where
  "exampleStageScope3 =
     \<lparr>s3_statedTotalEmissions = Undefined,
      s3_categories = Val [\<lparr>cat_category = 1, cat_total = Val 10\<rparr>,
                           \<lparr>cat_category = 2, cat_total = Val 25\<rparr>]\<rparr>"

definition exampleEmissions :: "scope3 \<Rightarrow> emissions" where
  "exampleEmissions s3 =
     \<lparr>em_scope1 = Undefined, em_scope2 = Undefined, em_scope3 = Val s3,
      em_calculatedTotalEmissions = Undefined, em_statedTotalEmissions = Undefined\<rparr>"

definition exampleScoring :: scoring where
  "exampleScoring = \<lparr>matchedFieldCount = 0, totalFieldCount = 4, result = exampleResult\<rparr>"

definition exampleNullTotals :: emissions where
  "exampleNullTotals =
     \<lparr>em_scope1 = Undefined, em_scope2 = Undefined,
      em_scope3 = Val \<lparr>s3_statedTotalEmissions = Val \<lparr>stated_total = Null\<rparr>,
                        s3_categories = Undefined\<rparr>,
      em_calculatedTotalEmissions = Null,
      em_statedTotalEmissions = Val \<lparr>stated_total = Null\<rparr>\<rparr>"

definition exampleProdTotals :: emissions where
  "exampleProdTotals =
     \<lparr>em_scope1 = Undefined, em_scope2 = Undefined,
      em_scope3 = Val \<lparr>s3_statedTotalEmissions = Val \<lparr>stated_total = Val 70\<rparr>,
                        s3_categories = Undefined\<rparr>,
      em_calculatedTotalEmissions = Val 120,
      em_statedTotalEmissions = Val \<lparr>stated_total = Null\<rparr>\<rparr>"

definition exampleStageTotals :: emissions where
  "exampleStageTotals =
     \<lparr>em_scope1 = Undefined, em_scope2 = Undefined,
      em_scope3 = Val \<lparr>s3_statedTotalEmissions = Val \<lparr>stated_total = Val 70\<rparr>,
                        s3_categories = Undefined\<rparr>,
      em_calculatedTotalEmissions = Val 120,
      em_statedTotalEmissions = Val \<lparr>stated_total = Val 130\<rparr>\<rparr>"

definition exampleScopeTotal :: "int \<Rightarrow> scope" where
  "exampleScopeTotal n =
     \<lparr>scope_total = Val n, scope_mb = Undefined, scope_lb = Undefined, scope_unknown = Undefined\<rparr>"

definition exampleScope1Period :: "int \<Rightarrow> reportingPeriod" where
  "exampleScope1Period n =
     \<lparr>rp_endDate = ''2022-12-31'',
      rp_emissions = Val \<lparr>em_scope1 = Val (exampleScopeTotal n), em_scope2 = Undefined,
                           em_scope3 = Undefined, em_calculatedTotalEmissions = Undefined,
                           em_statedTotalEmissions = Undefined\<rparr>,
      rp_economy = Undefined\<rparr>"

definition exampleScope1Company :: "int \<Rightarrow> company" where
  "exampleScope1Company n =
     \<lparr>wikidataId = ''Q1'', company_name = ''Acme'', reportingPeriods = [exampleScope1Period n]\<rparr>"

definition exampleFullScope :: scope where
  "exampleFullScope =
     \<lparr>scope_total = Val 1, scope_mb = Val 1, scope_lb = Val 1, scope_unknown = Val 1\<rparr>"

definition exampleFullPeriod :: reportingPeriod where
  "exampleFullPeriod =
     \<lparr>rp_endDate = ''2022-12-31'',
      rp_emissions = Val \<lparr>em_scope1 = Val exampleFullScope, em_scope2 = Val exampleFullScope,
                           em_scope3 = Undefined, em_calculatedTotalEmissions = Val 8,
                           em_statedTotalEmissions = Val \<lparr>stated_total = Val 8\<rparr>\<rparr>,
      rp_economy = Undefined\<rparr>"

definition exampleFullCompany :: company where
  "exampleFullCompany =
     \<lparr>wikidataId = ''Q1'', company_name = ''Acme'', reportingPeriods = [exampleFullPeriod]\<rparr>"

definition exampleManyCategories :: "category list" where
  "exampleManyCategories = replicate 19992 \<lparr>cat_category = 1, cat_total = Val 10\<rparr>"

definition exampleEmployees :: "economy js" where
  "exampleEmployees = Val \<lparr>eco_employees = Val \<lparr>employees_value = Val 5\<rparr>, eco_turnover = Undefined\<rparr>"

definition exampleManyPeriod :: reportingPeriod where
  "exampleManyPeriod =
     \<lparr>rp_endDate = ''2022-12-31'',
      rp_emissions = Val \<lparr>em_scope1 = Undefined, em_scope2 = Undefined,
                           em_scope3 = Val \<lparr>s3_statedTotalEmissions = Undefined,
                                             s3_categories = Val exampleManyCategories\<rparr>,
                           em_calculatedTotalEmissions = Undefined,
                           em_statedTotalEmissions = Undefined\<rparr>,
      rp_economy = exampleEmployees\<rparr>"

definition exampleManyProd :: company where
  "exampleManyProd =
     \<lparr>wikidataId = ''Q1'', company_name = ''Acme'', reportingPeriods = [exampleManyPeriod]\<rparr>"

definition exampleManyStage :: company where
  "exampleManyStage =
     \<lparr>wikidataId = ''Q1'', company_name = ''Acme'',
      reportingPeriods = [\<lparr>rp_endDate = ''2022-12-31'', rp_emissions = Undefined,
                            rp_economy = exampleEmployees\<rparr>]\<rparr>"

definition exampleTwoPeriods :: company where
  "exampleTwoPeriods =
     \<lparr>wikidataId = ''Q1'', company_name = ''Acme'',
      reportingPeriods = [(exampleScope1Period 100)\<lparr>rp_endDate := ''2022-06-30''\<rparr>,
                          exampleScope1Period 200]\<rparr>"

definition examplePopulatedPeriod :: reportingPeriod where
  "examplePopulatedPeriod =
     \<lparr>rp_endDate = ''2022-12-31'',
      rp_emissions =
        Val \<lparr>em_scope1 = Val (exampleScopeTotal 100),
             em_scope2 = Val \<lparr>scope_total = Undefined, scope_mb = Val 40, scope_lb = Val 50,
                                scope_unknown = Null\<rparr>,
             em_scope3 = Val \<lparr>s3_statedTotalEmissions = Val \<lparr>stated_total = Val 30\<rparr>,
                                s3_categories = Val [\<lparr>cat_category = 1, cat_total = Val 10\<rparr>,
                                                     \<lparr>cat_category = 2, cat_total = Val 20\<rparr>]\<rparr>,
             em_calculatedTotalEmissions = Val 220,
             em_statedTotalEmissions = Val \<lparr>stated_total = Val 220\<rparr>\<rparr>,
      rp_economy = Val \<lparr>eco_employees = Val \<lparr>employees_value = Val 12\<rparr>,
                         eco_turnover = Val \<lparr>turnover_value = Val 1000000,
                                               turnover_currency = Val ''SEK''\<rparr>\<rparr>\<rparr>"

definition examplePopulatedCompany :: company where
  "examplePopulatedCompany =
     \<lparr>wikidataId = ''Q7'', company_name = ''Bolt'', reportingPeriods = [examplePopulatedPeriod]\<rparr>"

definition exampleNullScope :: scope where
  "exampleNullScope =
     \<lparr>scope_total = Null, scope_mb = Undefined, scope_lb = Undefined, scope_unknown = Undefined\<rparr>"

definition exampleNullPeriod :: reportingPeriod where
  "exampleNullPeriod =
     \<lparr>rp_endDate = ''2022-12-31'',
      rp_emissions = Val \<lparr>em_scope1 = Val exampleNullScope, em_scope2 = Undefined,
                           em_scope3 = Undefined, em_calculatedTotalEmissions = Undefined,
                           em_statedTotalEmissions = Undefined\<rparr>,
      rp_economy = Undefined\<rparr>"

definition exampleNullCompany :: company where
  "exampleNullCompany =
     \<lparr>wikidataId = ''Q1'', company_name = ''Acme'', reportingPeriods = [exampleNullPeriod]\<rparr>"

section \<open>Closed forms\<close>

text \<open>
  Each function translated from the script is shown to return (never to throw) and to
  compute the lists of the previous section.
\<close>

subsection \<open>Values and the result record\<close>

lemma truthy_simps [simp]: "truthy (Val v)" "\<not> truthy Undefined" "\<not> truthy Null"
  by (simp_all add: truthy_def)

lemma notNullish_simps [simp]: "notNullish (Val v)" "\<not> notNullish Undefined" "\<not> notNullish Null"
  by (simp_all add: notNullish_def)

lemma optChain_simps [simp]: "optChain (Val v) f = f v" "optChain Undefined f = Undefined" "optChain Null f = Undefined"
  by (simp_all add: optChain_def)

lemma deref_simps [simp]: "deref (Val v) = Inr v" "deref Undefined = Inl TypeError" "deref Null = Inl TypeError"
  by (simp_all add: deref_def)

lemma optChain_absent: "\<not> truthy p \<Longrightarrow> optChain p f = Undefined"
  by (cases p) simp_all

lemma extend_simps [simp]:
  "matchedFields (extend r ms xs) = matchedFields r @ ms"
  "mismatchedFields (extend r ms xs) = mismatchedFields r @ xs"
  "res_name (extend r ms xs) = res_name r"
  "accuracy (extend r ms xs) = accuracy r"
  "res_note (extend r ms xs) = res_note r"
  "inStaging (extend r ms xs) = inStaging r"
  by (simp_all add: extend_def)

lemma extend_extend [simp]: "extend (extend r a b) c d = extend r (a @ c) (b @ d)"
  by (simp add: extend_def)

lemma extend_Nil [simp]: "extend r [] [] = r"
  by (simp add: extend_def)

lemma pushMatched_extend: "pushMatched r l = extend r [l] []"
  by (simp add: extend_def pushMatched_def)

lemma pushMismatched_extend: "pushMismatched r l = extend r [] [l]"
  by (simp add: extend_def pushMismatched_def)

lemma find_None_iff_ball: "List.find P xs = None \<longleftrightarrow> (\<forall>x \<in> set xs. \<not> P x)"
  by (auto simp add: find_None_iff)

lemma find_self:
  "distinct (map k xs) \<Longrightarrow> x \<in> set xs \<Longrightarrow> List.find (\<lambda>y. k y = k x) xs = Some x"
  by (induction xs) auto

subsection \<open>The helpers\<close>

lemma emissionsLoop_closed:
  "emissionsLoop sn p s y fs (n, r) =
     (n + length (filter (fieldMatches p s) fs),
      extend r (map (\<lambda>f. emissionsLabel sn f y) (filter (fieldMatches p s) fs))
               (map (\<lambda>f. emissionsLabel sn f y) (filter (fieldDiffers p s) fs)))"
  by (induction fs arbitrary: n r)
     (simp_all add: Let_def fieldOf_def fieldMatches_def fieldDiffers_def
        pushMatched_extend pushMismatched_extend)

lemma fieldOf_absent: "\<not> truthy p \<Longrightarrow> fieldOf p f = Undefined"
  by (cases p) (simp_all add: fieldOf_def)

lemma compareEmissions_closed:
  "compareEmissions sn p s r y =
     (length (emissionsMatched sn p s y),
      extend r (emissionsMatched sn p s y) (emissionsMismatched sn p s y))"
  by (simp add: compareEmissions_def emissionsLoop_closed fieldOf_absent
        emissionsMatched_def emissionsMismatched_def fieldMatches_def fieldDiffers_def)

lemma catMatches_iff:
  "catMatches scs c \<longleftrightarrow>
     (\<exists>sc. List.find (\<lambda>cat. cat_category cat = cat_category c) scs = Some sc
           \<and> cat_total c = cat_total sc)"
  by (simp add: catMatches_def split: option.splits)

lemma categoryLoop_closed:
  "s3_categories s3 = Val scs \<Longrightarrow>
   categoryLoop (Val s3) y pcs (n, r) =
     Inr (n + length (filter (catMatches scs) pcs),
          extend r (map (\<lambda>c. categoryLabel c y) (filter (catMatches scs) pcs))
                   (map (\<lambda>c. categoryLabel c y) (filter (\<lambda>c. \<not> catMatches scs c) pcs)))"
  by (induction pcs arbitrary: n r)
     (simp_all add: catMatches_def findJs_def pushMatched_extend pushMismatched_extend
         split: option.splits)

lemma scope3StatedTotal_closed:
  "scope3StatedTotal p s y (n, r) =
     (n + length (matchEntry (scope3StatedOf p) (scope3StatedOf s) (scope3StatedLabel y)),
      extend r (matchEntry (scope3StatedOf p) (scope3StatedOf s) (scope3StatedLabel y))
        (mismatchEntry (scope3StatedOf p) (scope3StatedOf s) (scope3StatedLabel y)))"
  by (simp add: scope3StatedTotal_def scope3StatedOf_def matchEntry_def mismatchEntry_def Let_def
        pushMatched_extend pushMismatched_extend)

lemma scope3StatedOf_absent: "\<not> truthy p \<Longrightarrow> scope3StatedOf p = Undefined"
  by (cases p) (simp_all add: scope3StatedOf_def)

lemma compareScope3_closed:
  "compareScope3 p s r y =
     Inr (length (scope3Matched p s y), extend r (scope3Matched p s y) (scope3Mismatched p s y))"
proof (cases "\<not> truthy p \<and> \<not> truthy s")
  case True
  then show ?thesis
    by (simp add: compareScope3_def scope3Matched_def scope3Mismatched_def scope3StatedOf_absent
          optChain_absent matchEntry_def mismatchEntry_def)
next
  case False
  show ?thesis
  proof (cases "truthy (optChain p s3_categories) \<and> truthy (optChain s s3_categories)")
    case True
    then obtain pcs scs where c: "optChain p s3_categories = Val pcs" "optChain s s3_categories = Val scs"
      by (cases "optChain p s3_categories"; cases "optChain s s3_categories") simp_all
    from c obtain p3 s3 where v: "p = Val p3" "s = Val s3"
      by (cases p; cases s) simp_all
    with c have cs: "s3_categories p3 = Val pcs" "s3_categories s3 = Val scs" by simp_all
    show ?thesis
      by (simp add: compareScope3_def v cs scope3StatedTotal_closed categoryLoop_closed
            scope3Matched_def scope3Mismatched_def Let_def)
  next
    case nc: False
    then have "(case (optChain p s3_categories, optChain s s3_categories) of
                  (Val pcs, Val scs) \<Rightarrow> f pcs scs | _ \<Rightarrow> []) = []" for f :: "category list \<Rightarrow> category list \<Rightarrow> string list"
      by (cases "optChain p s3_categories"; cases "optChain s s3_categories") simp_all
    then show ?thesis
      by (simp add: False nc compareScope3_def scope3StatedTotal_closed scope3Matched_def scope3Mismatched_def Let_def)
  qed
qed

lemma compareScope3_categories:
  assumes "optChain p s3_categories = Val pcs" "optChain s s3_categories = Val scs"
  shows "compareScope3 p s r y =
           Inr (fst (scope3StatedTotal p s y (0, r)) + length (filter (catMatches scs) pcs),
                extend (snd (scope3StatedTotal p s y (0, r)))
                  (map (\<lambda>c. categoryLabel c y) (filter (catMatches scs) pcs))
                  (map (\<lambda>c. categoryLabel c y) (filter (\<lambda>c. \<not> catMatches scs c) pcs)))"
  by (simp add: compareScope3_closed scope3Matched_def scope3Mismatched_def assms
        scope3StatedTotal_closed)

lemma compareTotalEmissions_closed:
  "compareTotalEmissions p s r y =
     (length (totalEmissionsMatched p s y),
      extend r (totalEmissionsMatched p s y) (totalEmissionsMismatched p s y))"
  by (simp add: compareTotalEmissions_def totalEmissionsMatched_def totalEmissionsMismatched_def
        statedOf_def matchEntry_def mismatchEntry_def Let_def pushMatched_extend pushMismatched_extend)

lemma compareEconomy_closed:
  "compareEconomy p s r y =
     (length (economyMatched p s), extend r (economyMatched p s) (economyMismatched p s))"
  by (simp add: compareEconomy_def economyMatched_def economyMismatched_def employeesOf_def
        turnoverValueOf_def turnoverCurrencyOf_def Let_def pushMatched_extend pushMismatched_extend)

lemma compareEmissions_absent:
  "\<not> truthy p \<or> \<not> truthy s \<Longrightarrow> compareEmissions sn p s r y = (0, r)"
  by (auto simp add: compareEmissions_closed emissionsMatched_def emissionsMismatched_def
        fieldMatches_def fieldDiffers_def fieldOf_absent)

lemma compareScope3_absent:
  "\<not> truthy p \<Longrightarrow> \<not> truthy s \<Longrightarrow> compareScope3 p s r y = Inr (0, r)"
  by (simp add: compareScope3_def)

lemma compareTotalEmissions_absent:
  "\<not> truthy p \<Longrightarrow> \<not> truthy s \<Longrightarrow> compareTotalEmissions p s r y = (0, r)"
  by (simp add: compareTotalEmissions_closed totalEmissionsMatched_def totalEmissionsMismatched_def
        statedOf_def optChain_absent matchEntry_def mismatchEntry_def)

lemma compareEconomy_absent:
  "\<not> truthy p \<or> \<not> truthy s \<Longrightarrow> compareEconomy p s r y = (0, r)"
  by (auto simp add: compareEconomy_closed economyMatched_def economyMismatched_def
        employeesOf_def turnoverValueOf_def optChain_absent)

subsection \<open>The loops\<close>

lemma comparePeriod_closed:
  "comparePeriod fy (Val sc) p st = Inr (periodStep fy sc st p)"
  by (simp add: comparePeriod_def periodStep_def findJs_def Let_def
        scope1Step_def scope2Step_def scope3Step_def totalEmissionsStep_def economyStep_def
        compareEmissions_closed compareScope3_closed compareTotalEmissions_closed
        compareEconomy_closed periodMatched_def periodMismatched_def pushMismatched_extend
        split: option.splits)

lemma periodLoop_closed:
  "periodLoop fy (Val sc) ps st = Inr (foldl (periodStep fy sc) st ps)"
  by (induction ps arbitrary: st) (simp_all add: comparePeriod_closed)

lemma compareCompany_closed:
  "compareCompany fy stagingData p = Inr (companyResult fy stagingData p)"
  by (simp add: compareCompany_def companyResult_def finishResult_def findJs_def
        periodLoop_closed Let_def split: option.splits)

lemma companyLoop_closed:
  "companyLoop fy stagingData ps acc = Inr (acc @ map (companyResult fy stagingData) ps)"
  by (induction ps arbitrary: acc) (simp_all add: compareCompany_closed)

lemma compareData_closed:
  "compareData fy stagingData productionData = Inr (map (companyResult fy stagingData) productionData)"
  by (simp add: compareData_def companyLoop_closed)

lemma accuracy_of_loop:
  assumes "List.find (\<lambda>comp. wikidataId comp = wikidataId p) stagingData = Some sc"
      and "periodLoop fy (Val sc) (reportingPeriods p) (initialScoring p) = Inr st"
  shows "compareCompany fy stagingData p
           = Inr ((result st)\<lparr>accuracy := calculateAccuracy st,
                               res_note := Val (noteFor (result st))\<rparr>)"
  using assms by (simp add: compareCompany_def findJs_def)

lemma initialScoring_counts:
  "matchedFieldCount (initialScoring p) = 0" "totalFieldCount (initialScoring p) = 0"
  by (simp_all add: initialScoring_def)

lemma periodStep_frame:
  "res_name (result (periodStep fy sc st p)) = res_name (result st)"
  "inStaging (result (periodStep fy sc st p)) = inStaging (result st)"
  by (simp_all add: periodStep_def split: option.splits)

lemma foldl_periodStep_frame:
  "res_name (result (foldl (periodStep fy sc) st ps)) = res_name (result st)"
  "inStaging (result (foldl (periodStep fy sc) st ps)) = inStaging (result st)"
  by (induction ps arbitrary: st) (simp_all add: periodStep_frame)

lemma companyResult_frame:
  "res_name (companyResult fy stagingData p) = company_name p"
  "inStaging (companyResult fy stagingData p) = Undefined"
  by (simp_all add: companyResult_def finishResult_def foldl_periodStep_frame notInStaging_def
        initialScoring_def split: option.splits)

lemma companyResult_accuracy:
  "accuracy (companyResult fy stagingData p) =
     (case List.find (\<lambda>comp. wikidataId comp = wikidataId p) stagingData of
        None \<Rightarrow> 0
      | Some sc \<Rightarrow> calculateAccuracy (foldl (periodStep fy sc) (initialScoring p) (reportingPeriods p)))"
  by (simp add: companyResult_def finishResult_def notInStaging_def split: option.splits)

text \<open>The steps for scope 1 and scope 2, and their entries written out.\<close>

lemma emissionsMatched_entries:
  "emissionsMatched sn p s y =
     map (\<lambda>f. sn @ ''.'' @ f @ '': '' @ y)
       (filter (\<lambda>f. fieldOf p f \<noteq> Undefined \<and> fieldOf s f \<noteq> Undefined \<and> fieldOf p f = fieldOf s f)
          [''total'', ''mb'', ''lb'', ''unknown''])"
  unfolding emissionsMatched_def emissionFields_def emissionsLabel_def fieldMatches_def
  by (rule refl)

lemma emissionsMismatched_entries:
  "emissionsMismatched sn p s y =
     map (\<lambda>f. sn @ ''.'' @ f @ '': '' @ y)
       (filter (\<lambda>f. fieldOf p f \<noteq> Undefined \<and> fieldOf s f \<noteq> Undefined \<and> fieldOf p f \<noteq> fieldOf s f)
          [''total'', ''mb'', ''lb'', ''unknown''])"
  unfolding emissionsMismatched_def emissionFields_def emissionsLabel_def fieldDiffers_def
  by (rule refl)

lemma scope1Step_closed:
  "scope1Step p s y st =
     \<lparr>matchedFieldCount = matchedFieldCount st + length (emissionsMatched ''scope1'' (scope1Of p) (scope1Of s) y),
      totalFieldCount = totalFieldCount st + 1,
      result = extend (result st) (emissionsMatched ''scope1'' (scope1Of p) (scope1Of s) y)
                 (emissionsMismatched ''scope1'' (scope1Of p) (scope1Of s) y)\<rparr>"
  by (simp add: scope1Step_def compareEmissions_closed scope1Of_def)

lemma scope2Step_closed:
  "scope2Step p s y st =
     \<lparr>matchedFieldCount = matchedFieldCount st + length (emissionsMatched ''scope2'' (scope2Of p) (scope2Of s) y),
      totalFieldCount = totalFieldCount st + 3,
      result = extend (result st) (emissionsMatched ''scope2'' (scope2Of p) (scope2Of s) y)
                 (emissionsMismatched ''scope2'' (scope2Of p) (scope2Of s) y)\<rparr>"
  by (simp add: scope2Step_def compareEmissions_closed scope2Of_def)

lemma scope_dot:
  "''scope1'' @ ''.'' @ x = ''scope1.'' @ x" "''scope2'' @ ''.'' @ x = ''scope2.'' @ x"
  by simp_all

subsection \<open>Rounding to doubles, and the accuracy\<close>

lemma roundHalfEven_le: "y \<le> of_int N \<Longrightarrow> roundHalfEven y \<le> N"
proof -
  assume a: "y \<le> of_int N"
  then have f: "\<lfloor>y\<rfloor> \<le> N" by (simp add: floor_le_iff)
  show ?thesis
  proof (cases "\<lfloor>y\<rfloor> = N")
    case True
    with a have "y = of_int N" using of_int_floor_le [of y] by linarith
    then show ?thesis by (simp add: roundHalfEven_def)
  next
    case False
    with f have "\<lfloor>y\<rfloor> + 1 \<le> N" by simp
    then show ?thesis by (auto simp add: roundHalfEven_def Let_def)
  qed
qed

lemma roundHalfEven_ge: "of_int N \<le> y \<Longrightarrow> N \<le> roundHalfEven y"
proof -
  assume "of_int N \<le> y"
  then have "N \<le> \<lfloor>y\<rfloor>" by (simp add: le_floor_iff)
  then show ?thesis by (auto simp add: roundHalfEven_def Let_def)
qed

lemma roundHalfEven_of_int [simp]: "roundHalfEven (of_int N) = N"
  by (simp add: roundHalfEven_def)

lemma binade_bounds: "e - int n \<le> binade n e x \<and> binade n e x \<le> e"
proof (induction n arbitrary: e)
  case 0
  then show ?case by simp
next
  case (Suc n)
  from Suc [of "e - 1"] show ?case by auto
qed

lemma binade_found: "e - int n < binade n e x \<Longrightarrow> 2 powi (binade n e x) \<le> x"
  by (induction n arbitrary: e) (auto split: if_splits)

lemma binade_eqI:
  assumes "(2::rat) powi k \<le> x \<or> k = e - int n" "x < 2 powi (k + 1) \<or> k = e" "e - int n \<le> k" "k \<le> e"
  shows "binade n e x = k"
  using assms
proof (induction n arbitrary: e)
  case 0
  then show ?case by simp
next
  case (Suc n)
  show ?case
  proof (cases "2 powi e \<le> x")
    case True
    have "k = e"
    proof (rule ccontr)
      assume "k \<noteq> e"
      with Suc.prems have "x < 2 powi (k + 1)" "k + 1 \<le> e" by auto
      moreover have "(2::rat) powi (k + 1) \<le> 2 powi e"
        using \<open>k + 1 \<le> e\<close> by (intro power_int_increasing) auto
      ultimately show False using True by linarith
    qed
    with True show ?thesis by simp
  next
    case False
    have "k \<noteq> e"
    proof
      assume "k = e"
      with Suc.prems(1) False show False by auto
    qed
    with Suc.prems have "binade n (e - 1) x = k"
      by (intro Suc.IH) auto
    with False show ?thesis by simp
  qed
qed

lemma exponentOf_eqI:
  "(2::rat) powi k \<le> x \<Longrightarrow> x < 2 powi (k + 1) \<Longrightarrow> - 1022 \<le> k \<Longrightarrow> k \<le> 1023 \<Longrightarrow> exponentOf x = k"
  unfolding exponentOf_def by (rule binade_eqI) auto

lemma exponentOf_range: "- 1022 \<le> exponentOf x" "exponentOf x \<le> 1023"
  using binade_bounds [of 1023 2045 x] by (simp_all add: exponentOf_def)

lemma exponentOf_found: "- 1022 < exponentOf x \<Longrightarrow> 2 powi (exponentOf x) \<le> x"
  using binade_found [of 1023 2045 x] by (simp add: exponentOf_def)

lemma exponentOf_le:
  assumes "x \<le> 2 powi j" "- 1022 \<le> j"
  shows "exponentOf x \<le> j"
proof (cases "- 1022 < exponentOf x")
  case True
  then have le: "(2::rat) powi (exponentOf x) \<le> 2 powi j"
    using exponentOf_found [of x] assms(1) by linarith
  show ?thesis
  proof (rule ccontr)
    assume "\<not> exponentOf x \<le> j"
    then have "(2::rat) powi j < 2 powi (exponentOf x)"
      by (intro power_int_strict_increasing) auto
    with le show False by linarith
  qed
next
  case False
  with assms show ?thesis by simp
qed

lemma roundMagnitude_nonneg: "0 \<le> x \<Longrightarrow> 0 \<le> roundMagnitude x"
proof -
  assume "0 \<le> x"
  then have "of_int 0 \<le> x / 2 powi (exponentOf x - 52)" by simp
  then have "0 \<le> roundHalfEven (x / 2 powi (exponentOf x - 52))"
    by (rule roundHalfEven_ge)
  then show ?thesis by (simp add: roundMagnitude_def)
qed

lemma roundDouble_nonneg: "0 \<le> x \<Longrightarrow> 0 \<le> roundDouble x"
  by (simp add: roundDouble_def roundMagnitude_nonneg)

lemma roundDouble_0 [simp]: "roundDouble 0 = 0"
  by (simp add: roundDouble_def roundMagnitude_def roundHalfEven_def)

lemma multiple_of_quantum:
  assumes "k \<le> j"
  shows "of_int N * 2 powi j / 2 powi k = (of_int (N * 2 ^ nat (j - k)) :: rat)"
proof -
  have "(2::rat) powi j = 2 powi (j - k) * 2 powi k"
    by (simp add: power_int_add [symmetric])
  moreover have "(2::rat) powi (j - k) = 2 ^ nat (j - k)"
    using assms by (simp add: power_int_nonneg_exp)
  ultimately show ?thesis by simp
qed

lemma roundDouble_le:
  assumes "0 \<le> x" "x \<le> of_int N * 2 powi j" "exponentOf x - 52 \<le> j"
  shows "roundDouble x \<le> of_int N * 2 powi j"
proof -
  let ?q = "(2::rat) powi (exponentOf x - 52)"
  have q: "0 < ?q" by simp
  have "x / ?q \<le> of_int N * 2 powi j / ?q"
    using assms(2) q by (simp add: divide_right_mono)
  also have "\<dots> = of_int (N * 2 ^ nat (j - (exponentOf x - 52)))"
    using assms(3) by (rule multiple_of_quantum)
  finally have "roundHalfEven (x / ?q) \<le> N * 2 ^ nat (j - (exponentOf x - 52))"
    by (rule roundHalfEven_le)
  then have "(of_int (roundHalfEven (x / ?q)) :: rat) \<le> of_int (N * 2 ^ nat (j - (exponentOf x - 52)))"
    by (simp only: of_int_le_iff)
  then have "of_int (roundHalfEven (x / ?q)) * ?q \<le> of_int (N * 2 ^ nat (j - (exponentOf x - 52))) * ?q"
    using q by (simp only: mult_le_cancel_right_pos)
  also have "of_int (N * 2 ^ nat (j - (exponentOf x - 52))) * ?q = of_int N * 2 powi j"
    unfolding multiple_of_quantum [OF assms(3), of N, symmetric] using q by simp
  finally show ?thesis
    using assms(1) by (simp add: roundDouble_def roundMagnitude_def)
qed

lemma roundDouble_ge:
  assumes "0 \<le> x" "of_int N * 2 powi j \<le> x" "exponentOf x - 52 \<le> j"
  shows "of_int N * 2 powi j \<le> roundDouble x"
proof -
  let ?q = "(2::rat) powi (exponentOf x - 52)"
  let ?M = "N * 2 ^ nat (j - (exponentOf x - 52))"
  have q: "0 < ?q" by simp
  have m: "of_int N * 2 powi j / ?q = of_int ?M"
    using assms(3) by (rule multiple_of_quantum)
  have "of_int N * 2 powi j / ?q \<le> x / ?q"
    using assms(2) q by (simp add: divide_right_mono)
  then have "of_int ?M \<le> x / ?q"
    by (simp only: m)
  then have "?M \<le> roundHalfEven (x / ?q)"
    by (rule roundHalfEven_ge)
  then have "(of_int ?M :: rat) \<le> of_int (roundHalfEven (x / ?q))"
    by (simp only: of_int_le_iff)
  then have le: "of_int ?M * ?q \<le> of_int (roundHalfEven (x / ?q)) * ?q"
    using q by (simp only: mult_le_cancel_right_pos)
  have "of_int N * 2 powi j = of_int ?M * ?q"
    unfolding m [symmetric] using q by simp
  also note le
  finally show ?thesis
    using assms(1) by (simp add: roundDouble_def roundMagnitude_def)
qed

lemma roundDouble_pos:
  assumes "(2::rat) powi (- 1022) \<le> x"
  shows "0 < roundDouble x"
proof -
  have x: "0 < x" using assms zero_less_power_int [of "2::rat" "- 1022"] by linarith
  have e: "2 powi (exponentOf x) \<le> x"
  proof (cases "- 1022 < exponentOf x")
    case True
    then show ?thesis by (rule exponentOf_found)
  next
    case False
    with exponentOf_range(1) [of x] have "exponentOf x = - 1022" by simp
    with assms show ?thesis by simp
  qed
  have "of_int 1 * 2 powi (exponentOf x) \<le> roundDouble x"
    using x e by (intro roundDouble_ge) auto
  then have "(2::rat) powi (exponentOf x) \<le> roundDouble x" by simp
  moreover have "(0::rat) < 2 powi (exponentOf x)" by simp
  ultimately show ?thesis by linarith
qed

lemma roundDouble_eval:
  assumes "(2::rat) powi k \<le> x" "x < 2 powi (k + 1)" "- 1022 \<le> k" "k \<le> 1023"
  shows "roundDouble x = of_int (roundHalfEven (x / 2 powi (k - 52))) * 2 powi (k - 52)"
proof -
  have "0 < x" using assms(1) zero_less_power_int [of "2::rat" k] by linarith
  then show ?thesis
    by (simp add: roundDouble_def roundMagnitude_def exponentOf_eqI [OF assms])
qed

lemma roundDouble_exact:
  assumes "(2::rat) powi k \<le> of_int N * 2 powi j" "of_int N * 2 powi j < (2::rat) powi (k + 1)"
    "- 1022 \<le> k" "k \<le> 1023" "k - 52 \<le> j"
  shows "roundDouble (of_int N * 2 powi j) = of_int N * 2 powi j"
proof -
  have "0 \<le> of_int N * (2::rat) powi j"
    using assms(1) zero_less_power_int [of "2::rat" k] by linarith
  moreover have "exponentOf (of_int N * 2 powi j) = k"
    using assms(1-4) by (rule exponentOf_eqI)
  ultimately show ?thesis
    using assms(5)
    by (intro antisym roundDouble_le roundDouble_ge) simp_all
qed

lemma roundDouble_1: "roundDouble 1 = 1"
  using roundDouble_exact [of 0 1 0] by simp

lemma roundDouble_100: "roundDouble 100 = 100"
  using roundDouble_exact [of 6 25 2] by simp

lemma roundHalfEven_divide:
  assumes "0 < b"
  shows "roundHalfEven (of_int a / of_int b) =
           (if 2 * (a mod b) < b then a div b
            else if b < 2 * (a mod b) then a div b + 1
            else if even (a div b) then a div b else a div b + 1)"
proof -
  have f: "\<lfloor>(of_int a / of_int b :: rat)\<rfloor> = a div b"
    by (rule floor_divide_of_int_eq)
  have "(of_int a :: rat) = of_int (a div b * b + a mod b)" by simp
  also have "\<dots> = of_int (a div b) * of_int b + of_int (a mod b)"
    by (simp only: of_int_add of_int_mult)
  finally have d: "(of_int a / of_int b :: rat) - of_int (a div b) = of_int (a mod b) / of_int b"
    using assms by (simp add: field_simps)
  have "(of_int (a mod b) / of_int b :: rat) < 1 / 2 \<longleftrightarrow> of_int (2 * (a mod b)) < (of_int b :: rat)"
    using assms by (simp add: field_simps)
  then have lt: "(of_int (a mod b) / of_int b :: rat) < 1 / 2 \<longleftrightarrow> 2 * (a mod b) < b"
    by (simp only: of_int_less_iff)
  have "(1 / 2 :: rat) < of_int (a mod b) / of_int b \<longleftrightarrow> (of_int b :: rat) < of_int (2 * (a mod b))"
    using assms by (simp add: field_simps)
  then have gt: "(1 / 2 :: rat) < of_int (a mod b) / of_int b \<longleftrightarrow> b < 2 * (a mod b)"
    by (simp only: of_int_less_iff)
  show ?thesis
    unfolding roundHalfEven_def Let_def f d lt gt by (rule refl)
qed

lemma roundHalfEven_numeral_divide:
  "roundHalfEven (numeral a / numeral b) =
     (if 2 * (numeral a mod numeral b) < (numeral b :: int) then numeral a div numeral b
      else if (numeral b :: int) < 2 * (numeral a mod numeral b) then numeral a div numeral b + 1
      else if even (numeral a div numeral b :: int) then numeral a div numeral b
      else numeral a div numeral b + 1)"
  using roundHalfEven_divide [of "numeral b" "numeral a"] by simp

lemma roundHalfEven_numeral: "roundHalfEven (numeral a) = numeral a"
  using roundHalfEven_of_int [of "numeral a"] by simp

lemma floor_numeral_divide:
  "\<lfloor>(numeral a / numeral b :: rat)\<rfloor> = numeral a div numeral b"
  using floor_divide_of_int_eq [of "numeral a" "numeral b", where ?'a = rat] by simp

lemma toFixed2_nonneg: "0 \<le> x \<Longrightarrow> 0 \<le> toFixed2 x"
  by (simp add: toFixed2_def)

lemma toFixed2_zero_iff: "0 \<le> x \<Longrightarrow> toFixed2 x = 0 \<longleftrightarrow> x < 1 / 200"
proof -
  assume "0 \<le> x"
  then have "toFixed2 x = 0 \<longleftrightarrow> \<lfloor>x * 100 + 1 / 2\<rfloor> = 0"
    by (simp add: toFixed2_def)
  also have "\<dots> \<longleftrightarrow> 0 \<le> x * 100 + 1 / 2 \<and> x * 100 + 1 / 2 < 1"
    by (simp add: floor_eq_iff)
  also have "\<dots> \<longleftrightarrow> x < 1 / 200"
    using \<open>0 \<le> x\<close> by auto
  finally show ?thesis .
qed

lemma toFixed2_le: "x \<le> 100 \<Longrightarrow> toFixed2 x \<le> 10000"
proof (cases "x < 0")
  case True
  then have "of_int 0 \<le> - x * 100 + 1 / 2" by simp
  then have "0 \<le> \<lfloor>- x * 100 + 1 / 2\<rfloor>" by (simp only: le_floor_iff)
  moreover from True have "toFixed2 x = - \<lfloor>- x * 100 + 1 / 2\<rfloor>"
    by (simp only: toFixed2_def if_True)
  ultimately show ?thesis by linarith
next
  case False
  assume "x \<le> 100"
  then have "x * 100 + 1 / 2 < of_int (10000 + 1)" by simp
  then have "\<lfloor>x * 100 + 1 / 2\<rfloor> < 10000 + 1" by (simp only: floor_less_iff)
  with False show ?thesis by (simp add: toFixed2_def)
qed

lemma parseFloat_nonneg: "0 \<le> n \<Longrightarrow> 0 \<le> parseFloat n"
  by (simp add: parseFloat_def roundDouble_nonneg)

lemma parseFloat_0 [simp]: "parseFloat 0 = 0"
  by (simp add: parseFloat_def)

lemma parseFloat_pos:
  assumes "0 < n"
  shows "0 < parseFloat n"
proof -
  have "(2::rat) powi (- 1022) \<le> 2 powi (- 7)"
    by (intro power_int_increasing) auto
  also have "\<dots> \<le> 1 / 100" by simp
  also have "\<dots> \<le> of_int n / 100"
    using assms by simp
  finally show ?thesis
    unfolding parseFloat_def by (rule roundDouble_pos)
qed

lemma parseFloat_zero_iff: "0 \<le> n \<Longrightarrow> parseFloat n = 0 \<longleftrightarrow> n = 0"
  using parseFloat_pos [of n] by (cases "n = 0") auto

lemma roundDouble_le_1:
  assumes "0 \<le> x" "x \<le> 1"
  shows "roundDouble x \<le> 1"
proof -
  have "exponentOf x \<le> 0"
    using assms(2) by (intro exponentOf_le) auto
  with assms have "roundDouble x \<le> of_int 1 * 2 powi 0"
    by (intro roundDouble_le) auto
  then show ?thesis by simp
qed

lemma roundDouble_le_100:
  assumes "0 \<le> x" "x \<le> 100"
  shows "roundDouble x \<le> 100"
proof -
  have "x \<le> 2 powi 7" using assms(2) by simp
  then have "exponentOf x \<le> 7"
    by (rule exponentOf_le) simp
  with assms have "roundDouble x \<le> of_int 25 * 2 powi 2"
    by (intro roundDouble_le) auto
  then show ?thesis by simp
qed

lemma percentage_nonneg: "0 \<le> percentage m t"
  by (simp add: percentage_def roundDouble_nonneg)

lemma percentage_le:
  assumes "m \<le> t"
  shows "percentage m t \<le> 100"
proof -
  have "(of_nat m / of_nat t :: rat) \<le> 1"
    using assms by (cases "t = 0") (simp_all add: divide_le_eq_1)
  then have "roundDouble (of_nat m / of_nat t) \<le> 1"
    by (intro roundDouble_le_1) simp_all
  then have "roundDouble (of_nat m / of_nat t) * 100 \<le> 100" by simp
  then show ?thesis
    unfolding percentage_def by (intro roundDouble_le_100) (simp_all add: roundDouble_nonneg)
qed

lemma percentage_0: "percentage 0 t = 0"
  by (simp add: percentage_def)

lemma percentage_full: "0 < t \<Longrightarrow> percentage t t = 100"
  by (simp add: percentage_def roundDouble_1 roundDouble_100)

lemma calculateAccuracy_nonneg: "0 \<le> calculateAccuracy st"
  by (simp add: calculateAccuracy_def parseFloat_nonneg toFixed2_nonneg percentage_nonneg)

lemma calculateAccuracy_le:
  assumes "matchedFieldCount st \<le> totalFieldCount st"
  shows "calculateAccuracy st \<le> 100"
proof -
  let ?x = "percentage (matchedFieldCount st) (totalFieldCount st)"
  have "toFixed2 ?x \<le> 10000"
    using assms by (intro toFixed2_le percentage_le)
  then have "(of_int (toFixed2 ?x) / 100 :: rat) \<le> 100" by simp
  moreover have "(0::rat) \<le> of_int (toFixed2 ?x) / 100"
    by (simp add: toFixed2_nonneg percentage_nonneg)
  ultimately have "parseFloat (toFixed2 ?x) \<le> 100"
    unfolding parseFloat_def by (intro roundDouble_le_100)
  then show ?thesis by (simp add: calculateAccuracy_def)
qed

lemma calculateAccuracy_zero_iff:
  "calculateAccuracy st = 0 \<longleftrightarrow>
     totalFieldCount st = 0 \<or> percentage (matchedFieldCount st) (totalFieldCount st) < 1 / 200"
  by (simp add: calculateAccuracy_def parseFloat_zero_iff toFixed2_nonneg toFixed2_zero_iff
        percentage_nonneg)

lemma calculateAccuracy_full:
  assumes "matchedFieldCount st = totalFieldCount st" "0 < totalFieldCount st"
  shows "calculateAccuracy st = 100"
  using assms
  by (simp add: calculateAccuracy_def percentage_full toFixed2_def parseFloat_def roundDouble_100
        floor_numeral_divide)

lemma toFixed2_0 [simp]: "toFixed2 0 = 0"
  using toFixed2_zero_iff [of 0] by simp

lemma calculateAccuracy_no_match: "matchedFieldCount st = 0 \<Longrightarrow> calculateAccuracy st = 0"
  by (simp add: calculateAccuracy_def percentage_0)

text \<open>
  Rounding is monotone, so the percentage of two counters lies on the side of 0.005 that
  the exact quotient lies on, as long as the quotient is not too close to 1 / 20000: a
  denominator of at most \<open>2 ^ 32\<close> keeps the quotients below 1 / 20000 far enough from it.
\<close>

lemma roundHalfEven_mono: "x \<le> y \<Longrightarrow> roundHalfEven x \<le> roundHalfEven y"
proof -
  assume le: "x \<le> y"
  then have f: "\<lfloor>x\<rfloor> \<le> \<lfloor>y\<rfloor>" by (rule floor_mono)
  show ?thesis
  proof (cases "\<lfloor>x\<rfloor> = \<lfloor>y\<rfloor>")
    case True
    with le show ?thesis by (auto simp add: roundHalfEven_def Let_def)
  next
    case False
    with f have "\<lfloor>x\<rfloor> + 1 \<le> \<lfloor>y\<rfloor>" by simp
    moreover have "roundHalfEven x \<le> \<lfloor>x\<rfloor> + 1" by (auto simp add: roundHalfEven_def Let_def)
    moreover have "\<lfloor>y\<rfloor> \<le> roundHalfEven y" by (auto simp add: roundHalfEven_def Let_def)
    ultimately show ?thesis by linarith
  qed
qed

lemma binade_above: "binade n e x < e \<Longrightarrow> x < 2 powi (binade n e x + 1)"
proof (induction n arbitrary: e)
  case 0
  then show ?case by simp
next
  case (Suc n)
  show ?case
  proof (cases "2 powi e \<le> x")
    case True
    with Suc.prems show ?thesis by simp
  next
    case False
    then have b: "binade (Suc n) e x = binade n (e - 1) x" by simp
    show ?thesis
    proof (cases "binade n (e - 1) x < e - 1")
      case True
      then show ?thesis unfolding b by (rule Suc.IH)
    next
      case nl: False
      with binade_bounds [of "e - 1" n x] have "binade n (e - 1) x = e - 1" by simp
      with False show ?thesis unfolding b by simp
    qed
  qed
qed

lemma exponentOf_above: "exponentOf x < 1023 \<Longrightarrow> x < 2 powi (exponentOf x + 1)"
  unfolding exponentOf_def by (rule binade_above)

lemma exponentOf_mono:
  assumes "x \<le> y"
  shows "exponentOf x \<le> exponentOf y"
proof (rule ccontr)
  assume "\<not> exponentOf x \<le> exponentOf y"
  then have lt: "exponentOf y < exponentOf x" by simp
  with exponentOf_range [of x] exponentOf_range [of y]
  have "exponentOf y < 1023" "- 1022 < exponentOf x" by linarith+
  then have "y < 2 powi (exponentOf y + 1)" "2 powi (exponentOf x) \<le> x"
    by (simp_all add: exponentOf_above exponentOf_found)
  moreover have "(2::rat) powi (exponentOf y + 1) \<le> 2 powi (exponentOf x)"
    using lt by (intro power_int_increasing) auto
  ultimately show False using assms by linarith
qed

lemma roundDouble_mono:
  assumes "0 \<le> x" "x \<le> y"
  shows "roundDouble x \<le> roundDouble y"
proof (cases "exponentOf x = exponentOf y")
  case True
  let ?q = "(2::rat) powi (exponentOf y - 52)"
  have q: "0 < ?q" by simp
  have "x / ?q \<le> y / ?q"
    using assms(2) q by (simp add: divide_right_mono)
  then have "roundHalfEven (x / ?q) \<le> roundHalfEven (y / ?q)"
    by (rule roundHalfEven_mono)
  then have "(of_int (roundHalfEven (x / ?q)) :: rat) \<le> of_int (roundHalfEven (y / ?q))"
    by (simp only: of_int_le_iff)
  then have "of_int (roundHalfEven (x / ?q)) * ?q \<le> of_int (roundHalfEven (y / ?q)) * ?q"
    using q by (simp only: mult_le_cancel_right_pos)
  then show ?thesis
    using assms by (simp add: roundDouble_def roundMagnitude_def True)
next
  case False
  with exponentOf_mono [OF assms(2)] have lt: "exponentOf x < exponentOf y" by simp
  with exponentOf_range [of x] exponentOf_range [of y]
  have "exponentOf x < 1023" "- 1022 < exponentOf y" by linarith+
  then have b: "x < 2 powi (exponentOf x + 1)" "2 powi (exponentOf y) \<le> y"
    by (simp_all add: exponentOf_above exponentOf_found)
  have "roundDouble x \<le> of_int 1 * 2 powi (exponentOf x + 1)"
    using assms(1) b(1) by (intro roundDouble_le) simp_all
  also have "of_int 1 * (2::rat) powi (exponentOf x + 1) \<le> of_int 1 * 2 powi (exponentOf y)"
    using lt by (simp add: power_int_increasing)
  also have "of_int 1 * 2 powi (exponentOf y) \<le> roundDouble y"
    using assms b(2) by (intro roundDouble_ge) simp_all
  finally show ?thesis .
qed

lemma percentage_mono:
  assumes "(of_nat m / of_nat t :: rat) \<le> c"
  shows "percentage m t \<le> roundDouble (roundDouble c * 100)"
proof -
  have "roundDouble (of_nat m / of_nat t) \<le> roundDouble c"
    using assms by (intro roundDouble_mono) simp_all
  then have "roundDouble (of_nat m / of_nat t) * 100 \<le> roundDouble c * 100" by simp
  then show ?thesis
    unfolding percentage_def by (intro roundDouble_mono) (simp_all add: roundDouble_nonneg)
qed

lemma percentage_mono_ge:
  assumes "0 \<le> c" "c \<le> (of_nat m / of_nat t :: rat)"
  shows "roundDouble (roundDouble c * 100) \<le> percentage m t"
proof -
  have "roundDouble c \<le> roundDouble (of_nat m / of_nat t)"
    using assms by (intro roundDouble_mono) simp_all
  then have "roundDouble c * 100 \<le> roundDouble (of_nat m / of_nat t) * 100" by simp
  then show ?thesis
    unfolding percentage_def using assms(1) by (intro roundDouble_mono) (simp_all add: roundDouble_nonneg)
qed

lemma percentage_at_threshold:
  "roundDouble (roundDouble (1 / 20000) * 100) = 5764607523034235 / 1152921504606846976"
proof -
  have d1: "roundDouble (1 / 20000) = 7378697629483821 / 147573952589676412928"
    by (subst roundDouble_eval [of "- 15"]) (simp_all add: roundHalfEven_numeral_divide)
  have d2: "roundDouble (7378697629483821 / 147573952589676412928 * 100)
              = 5764607523034235 / 1152921504606846976"
    by (subst roundDouble_eval [of "- 8"]) (simp_all add: roundHalfEven_numeral_divide)
  show ?thesis by (simp only: d1 d2)
qed

lemma percentage_below_threshold:
  "roundDouble (roundDouble (4294967295 / 85899345920000) * 100)
     = 2882303760846029 / 576460752303423488"
proof -
  have d1: "roundDouble (4294967295 / 85899345920000) = 3689348813882917 / 73786976294838206464"
    by (subst roundDouble_eval [of "- 15"]) (simp_all add: roundHalfEven_numeral_divide)
  have d2: "roundDouble (3689348813882917 / 73786976294838206464 * 100)
              = 2882303760846029 / 576460752303423488"
    by (subst roundDouble_eval [of "- 8"]) (simp_all add: roundHalfEven_numeral_divide)
  show ?thesis by (simp only: d1 d2)
qed

lemma percentage_threshold:
  assumes "0 < t" "t \<le> 2 ^ 32"
  shows "percentage m t < 1 / 200 \<longleftrightarrow> 20000 * m < t"
proof
  assume p: "percentage m t < 1 / 200"
  show "20000 * m < t"
  proof (rule ccontr)
    assume "\<not> 20000 * m < t"
    then have "t \<le> 20000 * m" by simp
    then have "(of_nat t :: rat) \<le> of_nat (20000 * m)" by (simp only: of_nat_le_iff)
    then have "(1 / 20000 :: rat) \<le> of_nat m / of_nat t"
      using assms(1) by (simp add: field_simps)
    then have "roundDouble (roundDouble (1 / 20000) * 100) \<le> percentage m t"
      by (intro percentage_mono_ge) simp_all
    with p show False unfolding percentage_at_threshold by simp
  qed
next
  assume "20000 * m < t"
  then have "20000 * m + 1 \<le> t" by simp
  then have "(of_nat (20000 * m + 1) :: rat) \<le> of_nat t" by (simp only: of_nat_le_iff)
  then have a: "20000 * (of_nat m :: rat) \<le> of_nat t - 1" by simp
  have t: "(of_nat t :: rat) \<le> 4294967296"
    using assms(2) of_nat_le_iff [of t "2 ^ 32", where ?'a = rat] by simp
  have tp: "(0::rat) < of_nat t" using assms(1) by simp
  have "(of_nat m / of_nat t :: rat) \<le> (of_nat t - 1) / (20000 * of_nat t)"
    using a tp by (simp add: field_simps)
  also have "\<dots> = 1 / 20000 - 1 / (20000 * of_nat t)"
    using tp by (simp add: field_simps)
  also have "\<dots> \<le> 1 / 20000 - 1 / (20000 * 4294967296)"
    using t tp by (simp add: field_simps)
  also have "\<dots> = 4294967295 / 85899345920000" by simp
  finally have "percentage m t \<le> roundDouble (roundDouble (4294967295 / 85899345920000) * 100)"
    by (rule percentage_mono)
  then show "percentage m t < 1 / 200"
    unfolding percentage_below_threshold by simp
qed

lemma calculateAccuracy_zero_threshold:
  assumes "totalFieldCount st \<le> 2 ^ 32"
  shows "calculateAccuracy st = 0 \<longleftrightarrow>
           totalFieldCount st = 0 \<or> 20000 * matchedFieldCount st < totalFieldCount st"
proof (cases "totalFieldCount st = 0")
  case True
  then show ?thesis by (simp add: calculateAccuracy_def)
next
  case False
  then have "0 < totalFieldCount st" by simp
  from percentage_threshold [OF this assms, of "matchedFieldCount st"] False
  show ?thesis by (simp only: calculateAccuracy_zero_iff simp_thms)
qed

text \<open>
  Some quotients evaluated, among them 23 matches of 160 fields: the double nearest to
  23 / 160 times 100 is 14.374999999999998..., which is printed as 14.37, although
  14.375 itself would be printed as 14.38.
\<close>

lemma percentage_1_9: "percentage 1 9 = 3127499741229511 / 281474976710656"
proof -
  have d1: "roundDouble (1 / 9) = 2001599834386887 / 18014398509481984"
    by (subst roundDouble_eval [of "- 4"]) (simp_all add: roundHalfEven_numeral_divide)
  have d2: "roundDouble (2001599834386887 / 18014398509481984 * 100) = 3127499741229511 / 281474976710656"
    by (subst roundDouble_eval [of 3]) (simp_all add: roundHalfEven_numeral_divide)
  show ?thesis
    unfolding percentage_def by (simp only: of_nat_numeral of_nat_1 d1 d2)
qed

lemma calculateAccuracy_1_9:
  "calculateAccuracy \<lparr>matchedFieldCount = 1, totalFieldCount = 9, result = r\<rparr> = parseFloat 1111"
  unfolding calculateAccuracy_def scoring.simps percentage_1_9
  by (simp add: toFixed2_def floor_numeral_divide)

lemma percentage_10_9: "percentage 10 9 = 3909374676536889 / 35184372088832"
proof -
  have d1: "roundDouble (10 / 9) = 2501999792983609 / 2251799813685248"
    by (subst roundDouble_eval [of 0]) (simp_all add: roundHalfEven_numeral_divide)
  have d2: "roundDouble (2501999792983609 / 2251799813685248 * 100) = 3909374676536889 / 35184372088832"
    by (subst roundDouble_eval [of 6]) (simp_all add: roundHalfEven_numeral_divide)
  show ?thesis
    unfolding percentage_def by (simp only: of_nat_numeral of_nat_1 d1 d2)
qed

lemma calculateAccuracy_10_9:
  "calculateAccuracy \<lparr>matchedFieldCount = 10, totalFieldCount = 9, result = r\<rparr> = parseFloat 11111"
  unfolding calculateAccuracy_def scoring.simps percentage_10_9
  by (simp add: toFixed2_def floor_numeral_divide)

lemma percentage_1_20001: "percentage 1 20001 = 5764319307068881 / 1152921504606846976"
proof -
  have d1: "roundDouble (1 / 20001) = 922291089131021 / 18446744073709551616"
    by (subst roundDouble_eval [of "- 15"]) (simp_all add: roundHalfEven_numeral_divide)
  have d2: "roundDouble (922291089131021 / 18446744073709551616 * 100) = 5764319307068881 / 1152921504606846976"
    by (subst roundDouble_eval [of "- 8"]) (simp_all add: roundHalfEven_numeral_divide)
  show ?thesis
    unfolding percentage_def by (simp only: of_nat_numeral of_nat_1 d1 d2)
qed

lemma calculateAccuracy_1_20001:
  "calculateAccuracy \<lparr>matchedFieldCount = 1, totalFieldCount = 20001, result = r\<rparr> = 0"
  unfolding calculateAccuracy_def scoring.simps percentage_1_20001
  by (simp add: toFixed2_def parseFloat_def floor_numeral_divide)

lemma percentage_1_18: "percentage 1 18 = 3127499741229511 / 562949953421312"
proof -
  have d1: "roundDouble (1 / 18) = 2001599834386887 / 36028797018963968"
    by (subst roundDouble_eval [of "- 5"]) (simp_all add: roundHalfEven_numeral_divide)
  have d2: "roundDouble (2001599834386887 / 36028797018963968 * 100) = 3127499741229511 / 562949953421312"
    by (subst roundDouble_eval [of 2]) (simp_all add: roundHalfEven_numeral_divide)
  show ?thesis
    unfolding percentage_def by (simp only: of_nat_numeral of_nat_1 d1 d2)
qed

lemma calculateAccuracy_1_18:
  "calculateAccuracy \<lparr>matchedFieldCount = 1, totalFieldCount = 18, result = r\<rparr> = parseFloat 556"
  unfolding calculateAccuracy_def scoring.simps percentage_1_18
  by (simp add: toFixed2_def floor_numeral_divide)

lemma percentage_23_160: "percentage 23 160 = 8092405580431359 / 562949953421312"
proof -
  have d1: "roundDouble (23 / 160) = 2589569785738035 / 18014398509481984"
    by (subst roundDouble_eval [of "- 3"]) (simp_all add: roundHalfEven_numeral_divide)
  have d2: "roundDouble (2589569785738035 / 18014398509481984 * 100) = 8092405580431359 / 562949953421312"
    by (subst roundDouble_eval [of 3]) (simp_all add: roundHalfEven_numeral_divide)
  show ?thesis
    unfolding percentage_def by (simp only: of_nat_numeral of_nat_1 d1 d2)
qed

lemma calculateAccuracy_23_160:
  "calculateAccuracy \<lparr>matchedFieldCount = 23, totalFieldCount = 160, result = r\<rparr> = parseFloat 1437"
  unfolding calculateAccuracy_def scoring.simps percentage_23_160
  by (simp add: toFixed2_def floor_numeral_divide)

lemma parseFloat_1111_below: "parseFloat 1111 \<le> 12"
proof -
  have e: "exponentOf (1111 / 100) = 3"
    by (rule exponentOf_eqI) simp_all
  have "roundDouble (1111 / 100) \<le> of_int 12 * 2 powi 0"
    by (rule roundDouble_le) (simp_all add: e)
  then show ?thesis by (simp add: parseFloat_def)
qed

lemma parseFloat_1111_above: "11 \<le> parseFloat 1111"
proof -
  have e: "exponentOf (1111 / 100) = 3"
    by (rule exponentOf_eqI) simp_all
  have "of_int 11 * 2 powi 0 \<le> roundDouble (1111 / 100)"
    by (rule roundDouble_ge) (simp_all add: e)
  then show ?thesis by (simp add: parseFloat_def)
qed

lemma parseFloat_11111_above: "111 \<le> parseFloat 11111"
proof -
  have e: "exponentOf (11111 / 100) = 6"
    by (rule exponentOf_eqI) simp_all
  have "of_int 111 * 2 powi 0 \<le> roundDouble (11111 / 100)"
    by (rule roundDouble_ge) (simp_all add: e)
  then show ?thesis by (simp add: parseFloat_def)
qed

subsection \<open>The number of matches of a period\<close>

lemma length_emissionsMatched:
  "length (emissionsMatched sn p s y) =
     (if fieldMatches p s ''total'' then 1 else 0) + (if fieldMatches p s ''mb'' then 1 else 0)
     + (if fieldMatches p s ''lb'' then 1 else 0) + (if fieldMatches p s ''unknown'' then 1 else 0)"
  by (simp add: emissionsMatched_def emissionFields_def)

lemma length_matchEntry_le: "length (matchEntry a b l) \<le> 1"
  by (simp add: matchEntry_def)

lemma length_scope3Matched_le:
  "length (scope3Matched (scope3Of p) s y) \<le> 1 + categoriesLength p"
proof -
  have "length (case (optChain (scope3Of p) s3_categories, optChain s s3_categories) of
                  (Val pcs, Val scs) \<Rightarrow> map (\<lambda>c. categoryLabel c y) (filter (catMatches scs) pcs)
                | _ \<Rightarrow> []) \<le> categoriesLength p"
    by (cases "optChain (scope3Of p) s3_categories"; cases "optChain s s3_categories")
       (simp_all add: categoriesLength_def scope3Of_def)
  then show ?thesis
    using length_matchEntry_le [of "scope3StatedOf (scope3Of p)" "scope3StatedOf s" "scope3StatedLabel y"]
    by (simp add: scope3Matched_def)
qed

lemma length_totalEmissionsMatched_le: "length (totalEmissionsMatched p s y) \<le> 2"
  by (simp add: totalEmissionsMatched_def matchEntry_def)

lemma length_economyMatched_le: "length (economyMatched p s) \<le> 2"
  by (simp add: economyMatched_def)

lemma length_periodMatched_le:
  assumes "countedFieldsOnly p"
  shows "length (periodMatched p s y) \<le> 9 + categoriesLength p"
proof -
  have s1: "length (emissionsMatched ''scope1'' (scope1Of p) (optChain (rp_emissions s) em_scope1) y) \<le> 1"
    using assms by (simp add: length_emissionsMatched countedFieldsOnly_def fieldMatches_def)
  have s2: "length (emissionsMatched ''scope2'' (scope2Of p) (optChain (rp_emissions s) em_scope2) y) \<le> 3"
    using assms by (simp add: length_emissionsMatched countedFieldsOnly_def fieldMatches_def)
  show ?thesis
    using s1 s2 length_scope3Matched_le [of p "optChain (rp_emissions s) em_scope3" y]
      length_totalEmissionsMatched_le [of "rp_emissions p" "rp_emissions s" y]
      length_economyMatched_le [of "rp_economy p" "rp_economy s"]
    by (simp add: periodMatched_def scope1Of_def scope2Of_def scope3Of_def)
qed

lemma periodStep_counts:
  assumes "countedFieldsOnly p" "matchedFieldCount st \<le> totalFieldCount st"
  shows "matchedFieldCount (periodStep fy sc st p) \<le> totalFieldCount (periodStep fy sc st p)"
  using assms length_periodMatched_le [OF assms(1)]
  by (auto simp add: periodStep_def add_le_mono split: option.splits)

lemma foldl_periodStep_counts:
  assumes "\<forall>p \<in> set ps. countedFieldsOnly p" "matchedFieldCount st \<le> totalFieldCount st"
  shows "matchedFieldCount (foldl (periodStep fy sc) st ps)
           \<le> totalFieldCount (foldl (periodStep fy sc) st ps)"
  using assms by (induction ps arbitrary: st) (simp_all add: periodStep_counts)

subsection \<open>Counting the labels of the totals\<close>

lemma categoryLabel_neq_stated: "categoryLabel c y \<noteq> scope3StatedLabel y"
  by (simp add: categoryLabel_def scope3StatedLabel_def)

lemma count_list_categoryLabels [simp]:
  "count_list (map (\<lambda>c. categoryLabel c y) cs) (scope3StatedLabel y) = 0"
  by (induction cs) (simp_all add: categoryLabel_neq_stated)

lemma count_list_matchEntry:
  "count_list (matchEntry a b l) l = (if a = b \<and> notNullish a then 1 else 0)"
  by (simp add: matchEntry_def)

lemma count_list_mismatchEntry:
  "count_list (mismatchEntry a b l) l = (if a \<noteq> b then 1 else 0)"
  by (simp add: mismatchEntry_def)

lemma count_scope3Matched:
  "count_list (scope3Matched p s y) (scope3StatedLabel y)
     = (if scope3StatedOf p = scope3StatedOf s \<and> notNullish (scope3StatedOf p) then 1 else 0)"
  by (cases "optChain p s3_categories"; cases "optChain s s3_categories")
     (simp_all add: scope3Matched_def count_list_matchEntry)

lemma count_scope3Mismatched:
  "count_list (scope3Mismatched p s y) (scope3StatedLabel y)
     = (if scope3StatedOf p \<noteq> scope3StatedOf s then 1 else 0)"
  by (cases "optChain p s3_categories"; cases "optChain s s3_categories")
     (simp_all add: scope3Mismatched_def count_list_mismatchEntry)

lemma calculatedLabel_neq_stated: "calculatedLabel y \<noteq> statedLabel y"
  by (simp add: calculatedLabel_def statedLabel_def)

lemma count_totalEmissionsMatched:
  "count_list (totalEmissionsMatched p s y) (calculatedLabel y)
     = (if optChain p em_calculatedTotalEmissions = optChain s em_calculatedTotalEmissions
           \<and> notNullish (optChain p em_calculatedTotalEmissions) then 1 else 0)"
  "count_list (totalEmissionsMatched p s y) (statedLabel y)
     = (if statedOf p = statedOf s \<and> notNullish (statedOf p) then 1 else 0)"
  using calculatedLabel_neq_stated [of y]
  by (auto simp add: totalEmissionsMatched_def matchEntry_def)

lemma count_totalEmissionsMismatched:
  "count_list (totalEmissionsMismatched p s y) (calculatedLabel y)
     = (if optChain p em_calculatedTotalEmissions \<noteq> optChain s em_calculatedTotalEmissions
        then 1 else 0)"
  "count_list (totalEmissionsMismatched p s y) (statedLabel y)
     = (if statedOf p \<noteq> statedOf s then 1 else 0)"
  using calculatedLabel_neq_stated [of y]
  by (auto simp add: totalEmissionsMismatched_def mismatchEntry_def)

subsection \<open>The entries of each helper, field by field\<close>

lemma count_list_map_label:
  assumes "\<And>a b. g a = g b \<Longrightarrow> a = b"
  shows "count_list (map g xs) (g x) = count_list xs x"
  using assms by (induction xs) auto

lemma count_list_filter: "count_list (filter P xs) x = (if P x then count_list xs x else 0)"
  by (induction xs) auto

lemma fieldOf_defined: "fieldOf p f \<noteq> Undefined \<Longrightarrow> count_list emissionFields f = Suc 0"
  by (cases p) (auto simp add: fieldOf_def scopeField_def emissionFields_def split: if_splits)

lemma count_emissionsMatched:
  "count_list (emissionsMatched sn p s y) (emissionsLabel sn f y)
     = (if fieldOf p f \<noteq> Undefined \<and> fieldOf s f \<noteq> Undefined \<and> fieldOf p f = fieldOf s f
        then 1 else 0)"
proof -
  have "count_list (map (\<lambda>f. emissionsLabel sn f y) (filter (fieldMatches p s) emissionFields))
          (emissionsLabel sn f y)
        = count_list (filter (fieldMatches p s) emissionFields) f"
    by (rule count_list_map_label) (simp add: emissionsLabel_def)
  then show ?thesis
    using fieldOf_defined [of p f]
    by (auto simp add: emissionsMatched_def count_list_filter fieldMatches_def)
qed

lemma count_emissionsMismatched:
  "count_list (emissionsMismatched sn p s y) (emissionsLabel sn f y)
     = (if fieldOf p f \<noteq> Undefined \<and> fieldOf s f \<noteq> Undefined \<and> fieldOf p f \<noteq> fieldOf s f
        then 1 else 0)"
proof -
  have "count_list (map (\<lambda>f. emissionsLabel sn f y) (filter (fieldDiffers p s) emissionFields))
          (emissionsLabel sn f y)
        = count_list (filter (fieldDiffers p s) emissionFields) f"
    by (rule count_list_map_label) (simp add: emissionsLabel_def)
  then show ?thesis
    using fieldOf_defined [of p f]
    by (auto simp add: emissionsMismatched_def count_list_filter fieldDiffers_def)
qed

lemma compareEmissions_field:
  "\<exists>n r'. compareEmissions scopeName prodScope stageScope r year = (n, r')
      \<and> count_list (matchedFields r') (scopeName @ ''.'' @ field @ '': '' @ year)
          = count_list (matchedFields r) (scopeName @ ''.'' @ field @ '': '' @ year)
            + (if fieldOf prodScope field \<noteq> Undefined \<and> fieldOf stageScope field \<noteq> Undefined
                  \<and> fieldOf prodScope field = fieldOf stageScope field then 1 else 0)
      \<and> count_list (mismatchedFields r') (scopeName @ ''.'' @ field @ '': '' @ year)
          = count_list (mismatchedFields r) (scopeName @ ''.'' @ field @ '': '' @ year)
            + (if fieldOf prodScope field \<noteq> Undefined \<and> fieldOf stageScope field \<noteq> Undefined
                  \<and> fieldOf prodScope field \<noteq> fieldOf stageScope field then 1 else 0)"
proof -
  let ?M = "emissionsMatched scopeName prodScope stageScope year"
  let ?X = "emissionsMismatched scopeName prodScope stageScope year"
  have l: "scopeName @ ''.'' @ field @ '': '' @ year = emissionsLabel scopeName field year"
    by (simp add: emissionsLabel_def)
  have m: "count_list (matchedFields (extend r ?M ?X)) (emissionsLabel scopeName field year)
      = count_list (matchedFields r) (emissionsLabel scopeName field year)
            + (if fieldOf prodScope field \<noteq> Undefined \<and> fieldOf stageScope field \<noteq> Undefined
                  \<and> fieldOf prodScope field = fieldOf stageScope field then 1 else 0)"
    by (simp only: extend_simps count_list_append count_emissionsMatched)
  have x: "count_list (mismatchedFields (extend r ?M ?X)) (emissionsLabel scopeName field year)
      = count_list (mismatchedFields r) (emissionsLabel scopeName field year)
            + (if fieldOf prodScope field \<noteq> Undefined \<and> fieldOf stageScope field \<noteq> Undefined
                  \<and> fieldOf prodScope field \<noteq> fieldOf stageScope field then 1 else 0)"
    by (simp only: extend_simps count_list_append count_emissionsMismatched)
  have c: "compareEmissions scopeName prodScope stageScope r year = (length ?M, extend r ?M ?X)"
    by (rule compareEmissions_closed)
  from c m x show ?thesis
    unfolding l by blast
qed

lemma not_catMatches:
  "(\<not> catMatches scs c) =
     (case List.find (\<lambda>cat. cat_category cat = cat_category c) scs of
        None \<Rightarrow> True | Some sc \<Rightarrow> cat_total c \<noteq> cat_total sc)"
  by (simp add: catMatches_def split: option.splits)

lemma compareScope3_entries:
  "(let matched =
          (if scope3StatedOf prodScope3 = scope3StatedOf stageScope3
                \<and> notNullish (scope3StatedOf prodScope3)
           then [''scope3.statedTotalEmissions.total: '' @ year] else [])
          @ (case (optChain prodScope3 s3_categories, optChain stageScope3 s3_categories) of
               (Val prodCategories, Val stageCategories) \<Rightarrow>
                 map (\<lambda>c. ''scope3.category='' @ showInt (cat_category c) @ '': '' @ year)
                   (filter (\<lambda>c. case List.find (\<lambda>cat. cat_category cat = cat_category c)
                                      stageCategories of
                                 None \<Rightarrow> False
                               | Some sc \<Rightarrow> cat_total c = cat_total sc)
                      prodCategories)
             | _ \<Rightarrow> []);
        mismatched =
          (if scope3StatedOf prodScope3 \<noteq> scope3StatedOf stageScope3
           then [''scope3.statedTotalEmissions.total: '' @ year] else [])
          @ (case (optChain prodScope3 s3_categories, optChain stageScope3 s3_categories) of
               (Val prodCategories, Val stageCategories) \<Rightarrow>
                 map (\<lambda>c. ''scope3.category='' @ showInt (cat_category c) @ '': '' @ year)
                   (filter (\<lambda>c. case List.find (\<lambda>cat. cat_category cat = cat_category c)
                                      stageCategories of
                                 None \<Rightarrow> True
                               | Some sc \<Rightarrow> cat_total c \<noteq> cat_total sc)
                      prodCategories)
             | _ \<Rightarrow> [])
    in compareScope3 prodScope3 stageScope3 r year =
         Inr (length matched,
              r\<lparr>matchedFields := matchedFields r @ matched,
                 mismatchedFields := mismatchedFields r @ mismatched\<rparr>))"
  unfolding Let_def compareScope3_closed scope3Matched_def scope3Mismatched_def extend_def
    matchEntry_def mismatchEntry_def scope3StatedLabel_def categoryLabel_def not_catMatches
  unfolding catMatches_def
  by (rule refl)

lemma compareTotalEmissions_entries:
  "(let matched =
          (if optChain prodEmissions em_calculatedTotalEmissions
                = optChain stageEmissions em_calculatedTotalEmissions
              \<and> notNullish (optChain prodEmissions em_calculatedTotalEmissions)
           then [''calculatedTotalEmissions: '' @ year] else [])
          @ (if statedOf prodEmissions = statedOf stageEmissions
                \<and> notNullish (statedOf prodEmissions)
             then [''statedTotalEmissions.total: '' @ year] else []);
        mismatched =
          (if optChain prodEmissions em_calculatedTotalEmissions
                \<noteq> optChain stageEmissions em_calculatedTotalEmissions
           then [''calculatedTotalEmissions: '' @ year] else [])
          @ (if statedOf prodEmissions \<noteq> statedOf stageEmissions
             then [''statedTotalEmissions.total: '' @ year] else [])
    in compareTotalEmissions prodEmissions stageEmissions r year =
         (length matched,
          r\<lparr>matchedFields := matchedFields r @ matched,
             mismatchedFields := mismatchedFields r @ mismatched\<rparr>))"
  unfolding Let_def compareTotalEmissions_closed totalEmissionsMatched_def
    totalEmissionsMismatched_def extend_def matchEntry_def mismatchEntry_def calculatedLabel_def
    statedLabel_def
  by (rule refl)

lemma compareEconomy_entries:
  "(let matched =
          (if employeesOf prodEconomy \<noteq> Undefined \<and> employeesOf stageEconomy \<noteq> Undefined
              \<and> employeesOf prodEconomy = employeesOf stageEconomy
           then [employeesMatchLabel (employeesOf prodEconomy)] else [])
          @ (if turnoverValueOf prodEconomy \<noteq> Undefined \<and> turnoverValueOf stageEconomy \<noteq> Undefined
                \<and> turnoverValueOf prodEconomy = turnoverValueOf stageEconomy
                \<and> turnoverCurrencyOf prodEconomy = turnoverCurrencyOf stageEconomy
             then [economyMatchLabel
                     (formatCurrency (turnoverValueOf prodEconomy) (turnoverCurrencyOf prodEconomy))]
             else []);
        mismatched =
          (if employeesOf prodEconomy \<noteq> Undefined \<and> employeesOf stageEconomy \<noteq> Undefined
              \<and> employeesOf prodEconomy \<noteq> employeesOf stageEconomy
           then [employeesMismatchLabel (employeesOf prodEconomy) (employeesOf stageEconomy)]
           else [])
          @ (if turnoverValueOf prodEconomy \<noteq> Undefined \<and> turnoverValueOf stageEconomy \<noteq> Undefined
                \<and> \<not> (turnoverValueOf prodEconomy = turnoverValueOf stageEconomy
                       \<and> turnoverCurrencyOf prodEconomy = turnoverCurrencyOf stageEconomy)
             then [economyMismatchLabel
                     (formatCurrency (turnoverValueOf prodEconomy) (turnoverCurrencyOf prodEconomy))
                     (formatCurrency (turnoverValueOf stageEconomy)
                        (turnoverCurrencyOf stageEconomy))]
             else [])
    in compareEconomy prodEconomy stageEconomy r year =
         (length matched,
          r\<lparr>matchedFields := matchedFields r @ matched,
             mismatchedFields := mismatchedFields r @ mismatched\<rparr>))"
  unfolding Let_def compareEconomy_closed economyMatched_def economyMismatched_def extend_def
  by (rule refl)

subsection \<open>A period compared with itself\<close>

lemma emissionsMismatched_self: "emissionsMismatched sn p p y = []"
  by (simp add: emissionsMismatched_def fieldDiffers_def)

lemma catMatches_self:
  "distinct (map cat_category cs) \<Longrightarrow> c \<in> set cs \<Longrightarrow> catMatches cs c"
  by (simp add: catMatches_def find_self [where k = cat_category])

lemma scope3Mismatched_self:
  assumes "case optChain p s3_categories of Val cs \<Rightarrow> distinct (map cat_category cs) | _ \<Rightarrow> True"
  shows "scope3Mismatched p p y = []"
proof (cases "optChain p s3_categories")
  case (Val cs)
  with assms have "filter (\<lambda>c. \<not> catMatches cs c) cs = []"
    by (simp add: filter_empty_conv catMatches_self)
  with Val show ?thesis
    by (simp add: scope3Mismatched_def mismatchEntry_def)
qed (simp_all add: scope3Mismatched_def mismatchEntry_def)

lemma scope3Matched_self:
  assumes "optChain p s3_categories = Val cs" "distinct (map cat_category cs)"
    "notNullish (scope3StatedOf p)"
  shows "length (scope3Matched p p y) = 1 + length cs"
proof -
  from assms(2) have "filter (catMatches cs) cs = cs"
    by (simp add: filter_id_conv catMatches_self)
  with assms show ?thesis
    by (simp add: scope3Matched_def matchEntry_def)
qed

lemma totalEmissionsMismatched_self: "totalEmissionsMismatched p p y = []"
  by (simp add: totalEmissionsMismatched_def mismatchEntry_def)

lemma economyMismatched_self: "economyMismatched p p = []"
  by (simp add: economyMismatched_def)

lemma periodMismatched_self:
  "distinctCategories p \<Longrightarrow> periodMismatched p p y = []"
  by (simp add: periodMismatched_def emissionsMismatched_self scope3Mismatched_self
        totalEmissionsMismatched_self economyMismatched_self distinctCategories_def scope3Of_def)

lemma periodMatched_populated:
  assumes "populated p" "distinctCategories p"
  shows "length (periodMatched p p y) = 9 + categoriesLength p"
proof -
  from assms(1) obtain cs where cs: "optChain (scope3Of p) s3_categories = Val cs"
    by (cases "optChain (scope3Of p) s3_categories") (simp_all add: populated_def)
  with assms(2) have d: "distinct (map cat_category cs)"
    by (simp add: distinctCategories_def)
  from cs have len: "categoriesLength p = length cs"
    by (simp add: categoriesLength_def scope3Of_def)
  have s1: "length (emissionsMatched ''scope1'' (scope1Of p) (scope1Of p) y) = 1"
    using assms(1)
    by (simp add: length_emissionsMatched populated_def countedFieldsOnly_def fieldMatches_def)
  have s2: "length (emissionsMatched ''scope2'' (scope2Of p) (scope2Of p) y) = 3"
    using assms(1)
    by (simp add: length_emissionsMatched populated_def countedFieldsOnly_def fieldMatches_def)
  have s3: "length (scope3Matched (scope3Of p) (scope3Of p) y) = 1 + length cs"
    using assms(1) by (intro scope3Matched_self cs d) (simp add: populated_def)
  have te: "length (totalEmissionsMatched (rp_emissions p) (rp_emissions p) y) = 2"
    using assms(1) by (simp add: totalEmissionsMatched_def matchEntry_def populated_def)
  have ec: "length (economyMatched (rp_economy p) (rp_economy p)) = 2"
    using assms(1) by (simp add: economyMatched_def populated_def)
  from s1 s2 s3 te ec len show ?thesis
    by (simp add: periodMatched_def scope1Of_def scope2Of_def scope3Of_def)
qed

lemma periodStep_self:
  assumes "distinct (map (\<lambda>rp. fy (rp_endDate rp)) (reportingPeriods sc))"
      and "p \<in> set (reportingPeriods sc)"
  shows "periodStep fy sc st p =
           \<lparr>matchedFieldCount = matchedFieldCount st + length (periodMatched p p (fy (rp_endDate p))),
            totalFieldCount = totalFieldCount st + (9 + categoriesLength p),
            result = extend (result st) (periodMatched p p (fy (rp_endDate p)))
                       (periodMismatched p p (fy (rp_endDate p)))\<rparr>"
  using find_self [where k = "\<lambda>rp. fy (rp_endDate rp)", OF assms]
  by (simp add: periodStep_def)

lemma foldl_periodStep_self:
  assumes "distinct (map (\<lambda>rp. fy (rp_endDate rp)) (reportingPeriods sc))"
      and "set ps \<subseteq> set (reportingPeriods sc)"
      and "\<forall>p \<in> set ps. distinctCategories p"
  shows "mismatchedFields (result (foldl (periodStep fy sc) st ps)) = mismatchedFields (result st)"
  using assms(2,3)
  by (induction ps arbitrary: st)
     (simp_all add: periodStep_self [OF assms(1)] periodMismatched_self)

lemma foldl_periodStep_populated:
  assumes "distinct (map (\<lambda>rp. fy (rp_endDate rp)) (reportingPeriods sc))"
      and "set ps \<subseteq> set (reportingPeriods sc)"
      and "\<forall>p \<in> set ps. distinctCategories p"
      and "\<forall>p \<in> set ps. populated p"
      and "matchedFieldCount st = totalFieldCount st"
  shows "matchedFieldCount (foldl (periodStep fy sc) st ps)
           = totalFieldCount (foldl (periodStep fy sc) st ps)
         \<and> totalFieldCount st + 9 * length ps \<le> totalFieldCount (foldl (periodStep fy sc) st ps)"
  using assms(2-)
proof (induction ps arbitrary: st)
  case Nil
  then show ?case by simp
next
  case (Cons p ps)
  let ?st = "periodStep fy sc st p"
  from Cons.prems have p: "p \<in> set (reportingPeriods sc)" "distinctCategories p" "populated p"
    by simp_all
  have eq: "matchedFieldCount ?st = totalFieldCount ?st"
    using Cons.prems(4) by (simp add: periodStep_self [OF assms(1) p(1)] periodMatched_populated p)
  have t: "totalFieldCount st + 9 \<le> totalFieldCount ?st"
    by (simp add: periodStep_self [OF assms(1) p(1)])
  from Cons.prems have "matchedFieldCount (foldl (periodStep fy sc) ?st ps)
           = totalFieldCount (foldl (periodStep fy sc) ?st ps)
         \<and> totalFieldCount ?st + 9 * length ps \<le> totalFieldCount (foldl (periodStep fy sc) ?st ps)"
    by (intro Cons.IH eq) simp_all
  with t show ?case by simp
qed

subsection \<open>The map of mismatches in generateCSV\<close>

lemma mismatchedMapOf_strings:
  "mismatchedMapOf fs k =
     (if fs \<noteq> [] \<and> k = ''undefined'' then Some (''N/A'', ''N/A'') else None)"
proof -
  have "fold (\<lambda>field acc. acc(''undefined'' \<mapsto> (''N/A'', ''N/A''))) fs m k
          = (if fs \<noteq> [] \<and> k = ''undefined'' then Some (''N/A'', ''N/A'') else m k)"
    for m :: "string \<rightharpoonup> string \<times> string"
    by (induction fs arbitrary: m) auto
  then show ?thesis
    by (simp add: mismatchedMapOf_def stringProperty_def strToString_def orElse_def)
qed

lemma resolve_on_strings:
  assumes "fieldName \<noteq> ''undefined''" "fieldName \<noteq> []"
  shows "resolveMatchOrDifference fieldName (mismatchedMapOf fs) matched =
           (if \<exists>m \<in> set matched. startsWith m fieldName then ''Yes'' else ''N/A'')"
proof (cases "List.find (\<lambda>field. startsWith field fieldName) matched")
  case None
  then show ?thesis
    using assms
    by (auto simp add: resolveMatchOrDifference_def mismatchedMapOf_strings findJs_def
          find_None_iff_ball [symmetric])
next
  case (Some m)
  then have "startsWith m fieldName" "m \<in> set matched"
    by (auto simp add: find_Some_iff)
  moreover from this assms have "m \<noteq> []"
    by (auto simp add: startsWith_def)
  ultimately show ?thesis
    using assms Some
    by (auto simp add: resolveMatchOrDifference_def mismatchedMapOf_strings findJs_def)
qed

subsection \<open>The examples, evaluated\<close>

lemmas entries_defs =
  periodStep_def periodMatched_def periodMismatched_def categoriesLength_def
  emissionsMatched_def emissionsMismatched_def emissionFields_def fieldMatches_def
  fieldDiffers_def fieldOf_def scopeField_def scope3Matched_def scope3Mismatched_def
  scope3StatedOf_def matchEntry_def mismatchEntry_def totalEmissionsMatched_def
  totalEmissionsMismatched_def statedOf_def economyMatched_def economyMismatched_def
  employeesOf_def turnoverValueOf_def turnoverCurrencyOf_def emissionsLabel_def
  scope3StatedLabel_def calculatedLabel_def statedLabel_def periodLabel_def

lemma length_exampleManyCategories: "length exampleManyCategories = 19992"
  by (simp only: exampleManyCategories_def length_replicate)

lemma showInt_5: "showInt 5 = ''5''"
  by (simp add: showInt_def showNat.simps)

lemma exampleScope1_equal:
  "compareData (take 4) [exampleScope1Company 100] [exampleScope1Company 100] =
     Inr [\<lparr>res_name = ''Acme'', matchedFields = [''scope1.total: 2022''],
            mismatchedFields = [], accuracy = parseFloat 1111,
            res_note = Val ''All data matches between production and staging'',
            inStaging = Undefined\<rparr>]"
  apply (simp add: compareData_closed companyResult_def exampleScope1Company_def)
  apply (simp add: periodStep_def exampleScope1Period_def initialScoring_def)
  apply (simp add: periodMatched_def periodMismatched_def categoriesLength_def)
  apply (simp add: entries_defs exampleScopeTotal_def)
  apply (simp add: finishResult_def calculateAccuracy_1_9 [unfolded One_nat_def] noteFor_def extend_def)
  done

lemma exampleScope1_differs:
  "compareData (take 4) [exampleScope1Company 200] [exampleScope1Company 100] =
     Inr [\<lparr>res_name = ''Acme'', matchedFields = [],
            mismatchedFields = [''scope1.total: 2022''], accuracy = 0,
            res_note = Val ''Partial mismatch or missing data between production and staging'',
            inStaging = Undefined\<rparr>]"
  apply (simp add: compareData_closed companyResult_def exampleScope1Company_def)
  apply (simp add: periodStep_def exampleScope1Period_def initialScoring_def)
  apply (simp add: periodMatched_def periodMismatched_def categoriesLength_def)
  apply (simp add: entries_defs exampleScopeTotal_def)
  apply (simp add: finishResult_def calculateAccuracy_no_match noteFor_def extend_def)
  done

lemma exampleScope1_loop:
  "periodLoop (take 4) (Val (exampleScope1Company 100)) (reportingPeriods (exampleScope1Company 100))
     (initialScoring (exampleScope1Company 100))
   = Inr \<lparr>matchedFieldCount = 1, totalFieldCount = 9,
          result = \<lparr>res_name = ''Acme'', matchedFields = [''scope1.total: 2022''],
                     mismatchedFields = [], accuracy = 0, res_note = Undefined,
                     inStaging = Undefined\<rparr>\<rparr>"
  apply (simp only: periodLoop_closed)
  apply (simp add: exampleScope1Company_def)
  apply (simp add: periodStep_def exampleScope1Period_def initialScoring_def)
  apply (simp add: periodMatched_def periodMismatched_def categoriesLength_def)
  apply (simp add: entries_defs exampleScopeTotal_def)
  done

lemma exampleFull_loop:
  "periodLoop (take 4) (Val exampleFullCompany) (reportingPeriods exampleFullCompany)
     (initialScoring exampleFullCompany)
   = Inr \<lparr>matchedFieldCount = 10, totalFieldCount = 9,
          result = \<lparr>res_name = ''Acme'',
                     matchedFields = [''scope1.total: 2022'', ''scope1.mb: 2022'',
                        ''scope1.lb: 2022'', ''scope1.unknown: 2022'', ''scope2.total: 2022'',
                        ''scope2.mb: 2022'', ''scope2.lb: 2022'', ''scope2.unknown: 2022'',
                        ''calculatedTotalEmissions: 2022'', ''statedTotalEmissions.total: 2022''],
                     mismatchedFields = [], accuracy = 0, res_note = Undefined,
                     inStaging = Undefined\<rparr>\<rparr>"
  apply (simp only: periodLoop_closed)
  apply (simp add: exampleFullCompany_def)
  apply (simp add: periodStep_def exampleFullPeriod_def initialScoring_def)
  apply (simp add: periodMatched_def periodMismatched_def categoriesLength_def)
  apply (simp add: entries_defs exampleFullScope_def)
  done

lemma exampleMany_loop:
  "periodLoop (take 4) (Val exampleManyStage) (reportingPeriods exampleManyProd)
     (initialScoring exampleManyProd)
   = Inr \<lparr>matchedFieldCount = 1, totalFieldCount = 20001,
          result = \<lparr>res_name = ''Acme'', matchedFields = [''employees: 5''],
                     mismatchedFields = [], accuracy = 0, res_note = Undefined,
                     inStaging = Undefined\<rparr>\<rparr>"
  apply (simp only: periodLoop_closed)
  apply (simp add: exampleManyProd_def exampleManyStage_def)
  apply (simp add: periodStep_def exampleManyPeriod_def initialScoring_def)
  apply (simp add: periodMatched_def periodMismatched_def categoriesLength_def
           length_exampleManyCategories)
  apply (simp add: entries_defs exampleEmployees_def employeesMatchLabel_def numToString_def
           showInt_5)
  done

lemma exampleTwoPeriods_eval:
  "compareData (take 4) [exampleTwoPeriods] [exampleTwoPeriods] =
     Inr [\<lparr>res_name = ''Acme'', matchedFields = [''scope1.total: 2022''],
            mismatchedFields = [''scope1.total: 2022''], accuracy = parseFloat 556,
            res_note = Val ''Partial mismatch or missing data between production and staging'',
            inStaging = Undefined\<rparr>]"
  apply (simp add: compareData_closed companyResult_def exampleTwoPeriods_def)
  apply (simp add: periodStep_def exampleScope1Period_def initialScoring_def)
  apply (simp add: periodMatched_def periodMismatched_def categoriesLength_def)
  apply (simp add: entries_defs exampleScopeTotal_def)
  apply (simp add: finishResult_def calculateAccuracy_1_18 [unfolded One_nat_def] noteFor_def extend_def)
  done

text \<open>
  The turnover example of the specification: 1000000 USD against 1000000 EUR is a mismatch,
  printed with a space between the groups of digits.
\<close>

lemma showNat_million: "showNat 1000000 = ''1000000''"
  by (simp add: showNat.simps)

lemma group_million: "groupThousands ''1000000'' = ''1,000,000''"
  by (simp add: groupThousands.simps)

lemma formatCurrency_million: "formatCurrency (Val 1000000) c = ''1 000 000 '' @ strToString c"
  by (simp add: formatCurrency_def numberFormat_def showNat_million group_million)


lemma compareEconomy_currencies:
  "compareEconomy
     (Val \<lparr>eco_employees = Undefined,
           eco_turnover = Val \<lparr>turnover_value = Val 1000000, turnover_currency = Val ''USD''\<rparr>\<rparr>)
     (Val \<lparr>eco_employees = Undefined,
           eco_turnover = Val \<lparr>turnover_value = Val 1000000, turnover_currency = Val ''EUR''\<rparr>\<rparr>)
     exampleResult ''2022''
   = (0, exampleResult\<lparr>mismatchedFields :=
           [''economy: Production(1 000 000 USD) vs Staging(1 000 000 EUR)'']\<rparr>)"
  apply (simp add: compareEconomy_closed economyMatched_def economyMismatched_def
           employeesOf_def turnoverValueOf_def turnoverCurrencyOf_def)
  apply (simp add: formatCurrency_million strToString_def economyMismatchLabel_def extend_def
           exampleResult_def)
  done

text \<open>A scope-1 block whose total is \<open>null\<close>, against itself and against the total 100.\<close>

lemma exampleNull_equal:
  "compareData (take 4) [exampleNullCompany] [exampleNullCompany] =
     Inr [\<lparr>res_name = ''Acme'', matchedFields = [''scope1.total: 2022''],
            mismatchedFields = [], accuracy = parseFloat 1111,
            res_note = Val ''All data matches between production and staging'',
            inStaging = Undefined\<rparr>]"
  apply (simp add: compareData_closed companyResult_def exampleNullCompany_def)
  apply (simp add: periodStep_def exampleNullPeriod_def initialScoring_def)
  apply (simp add: periodMatched_def periodMismatched_def categoriesLength_def)
  apply (simp add: entries_defs exampleNullScope_def)
  apply (simp add: finishResult_def calculateAccuracy_1_9 [unfolded One_nat_def] noteFor_def extend_def)
  done

lemma exampleNull_match:
  "compareEmissions ''scope1'' (Val exampleNullScope) (Val exampleNullScope) exampleResult ''2022''
     = (1, exampleResult\<lparr>matchedFields := [''scope1.total: 2022'']\<rparr>)"
  by (simp add: compareEmissions_closed entries_defs exampleNullScope_def exampleResult_def
        extend_def)

lemma exampleNull_mismatch:
  "compareEmissions ''scope1'' (Val exampleNullScope) (Val (exampleScopeTotal 100)) exampleResult
     ''2022''
     = (0, exampleResult\<lparr>mismatchedFields := [''scope1.total: 2022'']\<rparr>)"
  by (simp add: compareEmissions_closed entries_defs exampleNullScope_def exampleScopeTotal_def
        exampleResult_def extend_def)

section \<open>The claims\<close>

subsection \<open>The range of the accuracy\<close>

text \<open>
  Claim C1, as the code has it. Of every result of \<open>compareData\<close> the accuracy is at
  least 0. It is at most 100 when the scope-1 blocks of the production company define
  none of mb, lb and unknown and its scope-2 blocks do not define total, which are the fields
  that the weights 1 and 3 leave uncounted. For a company found in staging the accuracy
  is \<open>calculateAccuracy\<close> of the two counters of the period loop: the quotient times 100
  in double precision, printed with two decimals and read back. It is 0 exactly when
  \<open>totalFieldCount\<close> is 0 or that double is below 0.005, which is printed as 0.00; so it
  is 0 whenever \<open>matchedFieldCount\<close> is 0; and when \<open>totalFieldCount\<close> is at most
  \<open>2 ^ 32\<close> it is 0 exactly when \<open>totalFieldCount\<close> is 0 or
  \<open>20000 * matchedFieldCount < totalFieldCount\<close>.
\<close>

theorem accuracy_range_and_zero:
  "\<exists>rs. compareData formatYear stagingData productionData = Inr rs
      \<and> length rs = length productionData
      \<and> (\<forall>i < length productionData.
            0 \<le> accuracy (rs ! i)
            \<and> ((\<forall>p \<in> set (reportingPeriods (productionData ! i)). countedFieldsOnly p)
                 \<longrightarrow> accuracy (rs ! i) \<le> 100)
            \<and> (\<forall>sc. List.find (\<lambda>comp. wikidataId comp = wikidataId (productionData ! i))
                        stagingData = Some sc \<longrightarrow>
                  (\<exists>st. periodLoop formatYear (Val sc) (reportingPeriods (productionData ! i))
                           (initialScoring (productionData ! i)) = Inr st
                        \<and> accuracy (rs ! i) = calculateAccuracy st
                        \<and> (accuracy (rs ! i) = 0 \<longleftrightarrow>
                             totalFieldCount st = 0
                             \<or> percentage (matchedFieldCount st) (totalFieldCount st) < 1 / 200)
                        \<and> (matchedFieldCount st = 0 \<longrightarrow> accuracy (rs ! i) = 0)
                        \<and> (totalFieldCount st \<le> 2 ^ 32 \<longrightarrow>
                             (accuracy (rs ! i) = 0 \<longleftrightarrow>
                                totalFieldCount st = 0
                                \<or> 20000 * matchedFieldCount st < totalFieldCount st)))))"
proof -
  let ?rs = "map (companyResult formatYear stagingData) productionData"
  have nonneg: "0 \<le> accuracy (companyResult formatYear stagingData p)" for p
    by (simp add: companyResult_accuracy calculateAccuracy_nonneg split: option.splits)
  have le: "accuracy (companyResult formatYear stagingData p) \<le> 100"
    if "\<forall>q \<in> set (reportingPeriods p). countedFieldsOnly q" for p
    using that
    by (simp add: companyResult_accuracy calculateAccuracy_le foldl_periodStep_counts
          initialScoring_counts split: option.splits)
  have found: "\<exists>st. periodLoop formatYear (Val sc) (reportingPeriods p) (initialScoring p) = Inr st
                 \<and> accuracy (companyResult formatYear stagingData p) = calculateAccuracy st
                 \<and> (accuracy (companyResult formatYear stagingData p) = 0 \<longleftrightarrow>
                      totalFieldCount st = 0
                      \<or> percentage (matchedFieldCount st) (totalFieldCount st) < 1 / 200)
                 \<and> (matchedFieldCount st = 0 \<longrightarrow>
                      accuracy (companyResult formatYear stagingData p) = 0)
                 \<and> (totalFieldCount st \<le> 2 ^ 32 \<longrightarrow>
                      (accuracy (companyResult formatYear stagingData p) = 0 \<longleftrightarrow>
                         totalFieldCount st = 0
                         \<or> 20000 * matchedFieldCount st < totalFieldCount st))"
    if f: "List.find (\<lambda>comp. wikidataId comp = wikidataId p) stagingData = Some sc" for p sc
  proof -
    let ?st = "foldl (periodStep formatYear sc) (initialScoring p) (reportingPeriods p)"
    have l: "periodLoop formatYear (Val sc) (reportingPeriods p) (initialScoring p) = Inr ?st"
      by (simp add: periodLoop_closed)
    have a: "accuracy (companyResult formatYear stagingData p) = calculateAccuracy ?st"
      using f by (simp add: companyResult_accuracy)
    have z: "calculateAccuracy ?st = 0 \<longleftrightarrow>
               totalFieldCount ?st = 0
               \<or> percentage (matchedFieldCount ?st) (totalFieldCount ?st) < 1 / 200"
      by (rule calculateAccuracy_zero_iff)
    have n: "matchedFieldCount ?st = 0 \<longrightarrow> calculateAccuracy ?st = 0"
      by (simp add: calculateAccuracy_no_match)
    have t: "totalFieldCount ?st \<le> 2 ^ 32 \<longrightarrow>
               (calculateAccuracy ?st = 0 \<longleftrightarrow>
                  totalFieldCount ?st = 0 \<or> 20000 * matchedFieldCount ?st < totalFieldCount ?st)"
      using calculateAccuracy_zero_threshold [of ?st] by blast
    show ?thesis
      unfolding a by (intro exI [of _ ?st] conjI l z n t refl)
  qed
  have "compareData formatYear stagingData productionData = Inr ?rs"
    by (rule compareData_closed)
  moreover have "length ?rs = length productionData" by simp
  moreover have "\<forall>i < length productionData.
            0 \<le> accuracy (?rs ! i)
            \<and> ((\<forall>p \<in> set (reportingPeriods (productionData ! i)). countedFieldsOnly p)
                 \<longrightarrow> accuracy (?rs ! i) \<le> 100)
            \<and> (\<forall>sc. List.find (\<lambda>comp. wikidataId comp = wikidataId (productionData ! i))
                        stagingData = Some sc \<longrightarrow>
                  (\<exists>st. periodLoop formatYear (Val sc) (reportingPeriods (productionData ! i))
                           (initialScoring (productionData ! i)) = Inr st
                        \<and> accuracy (?rs ! i) = calculateAccuracy st
                        \<and> (accuracy (?rs ! i) = 0 \<longleftrightarrow>
                             totalFieldCount st = 0
                             \<or> percentage (matchedFieldCount st) (totalFieldCount st) < 1 / 200)
                        \<and> (matchedFieldCount st = 0 \<longrightarrow> accuracy (?rs ! i) = 0)
                        \<and> (totalFieldCount st \<le> 2 ^ 32 \<longrightarrow>
                             (accuracy (?rs ! i) = 0 \<longleftrightarrow>
                                totalFieldCount st = 0
                                \<or> 20000 * matchedFieldCount st < totalFieldCount st))))"
  proof (intro allI impI)
    fix i assume i: "i < length productionData"
    then have nth: "?rs ! i = companyResult formatYear stagingData (productionData ! i)"
      by simp
    show "0 \<le> accuracy (?rs ! i)
            \<and> ((\<forall>p \<in> set (reportingPeriods (productionData ! i)). countedFieldsOnly p)
                 \<longrightarrow> accuracy (?rs ! i) \<le> 100)
            \<and> (\<forall>sc. List.find (\<lambda>comp. wikidataId comp = wikidataId (productionData ! i))
                        stagingData = Some sc \<longrightarrow>
                  (\<exists>st. periodLoop formatYear (Val sc) (reportingPeriods (productionData ! i))
                           (initialScoring (productionData ! i)) = Inr st
                        \<and> accuracy (?rs ! i) = calculateAccuracy st
                        \<and> (accuracy (?rs ! i) = 0 \<longleftrightarrow>
                             totalFieldCount st = 0
                             \<or> percentage (matchedFieldCount st) (totalFieldCount st) < 1 / 200)
                        \<and> (matchedFieldCount st = 0 \<longrightarrow> accuracy (?rs ! i) = 0)
                        \<and> (totalFieldCount st \<le> 2 ^ 32 \<longrightarrow>
                             (accuracy (?rs ! i) = 0 \<longleftrightarrow>
                                totalFieldCount st = 0
                                \<or> 20000 * matchedFieldCount st < totalFieldCount st))))"
      unfolding nth using nonneg le found by blast
  qed
  ultimately show ?thesis by blast
qed

text \<open>
  An instance: Acme with one period and scope1.total = 100 on both sides. The counters are
  1 and 9, and the accuracy, the double read from 11.11, lies between 0 and 100 and is
  not 0, as 20000 is not below 9.
\<close>

theorem accuracy_range_and_zero_witness:
  "\<exists>rs. compareData (take 4) [exampleScope1Company 100] [exampleScope1Company 100] = Inr rs
      \<and> 0 \<le> accuracy (rs ! 0) \<and> accuracy (rs ! 0) \<le> 100
      \<and> accuracy (rs ! 0) = parseFloat 1111 \<and> accuracy (rs ! 0) \<noteq> 0"
proof -
  let ?c = "exampleScope1Company 100"
  from accuracy_range_and_zero [of "take 4" "[?c]" "[?c]"]
  obtain rs where rs: "compareData (take 4) [?c] [?c] = Inr rs"
    and range: "0 \<le> accuracy (rs ! 0)"
      "(\<forall>p \<in> set (reportingPeriods ?c). countedFieldsOnly p) \<longrightarrow> accuracy (rs ! 0) \<le> 100"
    and zero: "\<forall>sc. List.find (\<lambda>comp. wikidataId comp = wikidataId ?c) [?c] = Some sc \<longrightarrow>
                  (\<exists>st. periodLoop (take 4) (Val sc) (reportingPeriods ?c) (initialScoring ?c) = Inr st
                        \<and> accuracy (rs ! 0) = calculateAccuracy st
                        \<and> (totalFieldCount st \<le> 2 ^ 32 \<longrightarrow>
                             (accuracy (rs ! 0) = 0 \<longleftrightarrow>
                                totalFieldCount st = 0
                                \<or> 20000 * matchedFieldCount st < totalFieldCount st)))"
    by auto
  have "\<forall>p \<in> set (reportingPeriods ?c). countedFieldsOnly p"
    by (simp add: exampleScope1Company_def exampleScope1Period_def exampleScopeTotal_def
          countedFieldsOnly_def scope1Of_def scope2Of_def fieldOf_def scopeField_def)
  with range(2) have le: "accuracy (rs ! 0) \<le> 100" by blast
  have "List.find (\<lambda>comp. wikidataId comp = wikidataId ?c) [?c] = Some ?c" by simp
  with zero obtain st where st:
    "periodLoop (take 4) (Val ?c) (reportingPeriods ?c) (initialScoring ?c) = Inr st"
    "accuracy (rs ! 0) = calculateAccuracy st"
    "totalFieldCount st \<le> 2 ^ 32 \<longrightarrow>
       (accuracy (rs ! 0) = 0 \<longleftrightarrow>
          totalFieldCount st = 0 \<or> 20000 * matchedFieldCount st < totalFieldCount st)"
    by blast
  from st(1,2) have v: "accuracy (rs ! 0) = parseFloat 1111"
    by (auto simp add: exampleScope1_loop calculateAccuracy_1_9 [unfolded One_nat_def])
  from st(1,3) have nz: "accuracy (rs ! 0) \<noteq> 0"
    by (auto simp add: exampleScope1_loop)
  with rs range(1) le v show ?thesis by blast
qed

text \<open>
  Claim C1 as stated fails twice. A period whose scope-1 and scope-2 blocks define all four
  fields, equal on both sides, gives 10 matches against the denominator 9: the accuracy is
  the double read from 111.11, which is above 111. And one match against a denominator of
  20001 (19992 scope-3 categories in production) gives 0.004999..., which is printed as
  0.00: the accuracy is 0 with neither counter 0.
\<close>

theorem accuracy_above_100_and_rounded_to_0:
  "compareCompany (take 4) [exampleFullCompany] exampleFullCompany
     = Inr \<lparr>res_name = ''Acme'',
            matchedFields = [''scope1.total: 2022'', ''scope1.mb: 2022'',
               ''scope1.lb: 2022'', ''scope1.unknown: 2022'', ''scope2.total: 2022'',
               ''scope2.mb: 2022'', ''scope2.lb: 2022'', ''scope2.unknown: 2022'',
               ''calculatedTotalEmissions: 2022'', ''statedTotalEmissions.total: 2022''],
            mismatchedFields = [], accuracy = parseFloat 11111,
            res_note = Val ''All data matches between production and staging'',
            inStaging = Undefined\<rparr>
   \<and> 111 \<le> parseFloat 11111
   \<and> periodLoop (take 4) (Val exampleManyStage) (reportingPeriods exampleManyProd)
       (initialScoring exampleManyProd)
     = Inr \<lparr>matchedFieldCount = 1, totalFieldCount = 20001,
            result = \<lparr>res_name = ''Acme'', matchedFields = [''employees: 5''],
                       mismatchedFields = [], accuracy = 0, res_note = Undefined,
                       inStaging = Undefined\<rparr>\<rparr>
   \<and> compareCompany (take 4) [exampleManyStage] exampleManyProd
     = Inr \<lparr>res_name = ''Acme'', matchedFields = [''employees: 5''],
            mismatchedFields = [], accuracy = 0,
            res_note = Val ''All data matches between production and staging'',
            inStaging = Undefined\<rparr>"
proof -
  have f1: "List.find (\<lambda>comp. wikidataId comp = wikidataId exampleFullCompany) [exampleFullCompany]
              = Some exampleFullCompany"
    by simp
  have f2: "List.find (\<lambda>comp. wikidataId comp = wikidataId exampleManyProd) [exampleManyStage]
              = Some exampleManyStage"
    by (simp add: exampleManyProd_def exampleManyStage_def)
  have above: "111 \<le> parseFloat 11111"
    by (rule parseFloat_11111_above)
  have full: "compareCompany (take 4) [exampleFullCompany] exampleFullCompany
     = Inr \<lparr>res_name = ''Acme'',
            matchedFields = [''scope1.total: 2022'', ''scope1.mb: 2022'',
               ''scope1.lb: 2022'', ''scope1.unknown: 2022'', ''scope2.total: 2022'',
               ''scope2.mb: 2022'', ''scope2.lb: 2022'', ''scope2.unknown: 2022'',
               ''calculatedTotalEmissions: 2022'', ''statedTotalEmissions.total: 2022''],
            mismatchedFields = [], accuracy = parseFloat 11111,
            res_note = Val ''All data matches between production and staging'',
            inStaging = Undefined\<rparr>"
    by (simp add: accuracy_of_loop [OF f1 exampleFull_loop] calculateAccuracy_10_9 noteFor_def)
  have many: "compareCompany (take 4) [exampleManyStage] exampleManyProd
     = Inr \<lparr>res_name = ''Acme'', matchedFields = [''employees: 5''],
            mismatchedFields = [], accuracy = 0,
            res_note = Val ''All data matches between production and staging'',
            inStaging = Undefined\<rparr>"
    by (simp add: accuracy_of_loop [OF f2 exampleMany_loop]
          calculateAccuracy_1_20001 [unfolded One_nat_def] noteFor_def)
  from full above exampleMany_loop many show ?thesis
    by (intro conjI)
qed

subsection \<open>A dataset compared with itself\<close>

text \<open>
  Claim C2, as the code has it. Let a dataset have pairwise distinct \<open>wikidataId\<close>s, in
  every company reporting periods of pairwise distinct years, and in every scope-3 block
  categories of pairwise distinct numbers. Compared with itself, every company gets an
  empty \<open>mismatchedFields\<close> list. Its accuracy is 100 when it has a reporting period and
  every period is populated as the weights count: scope1.total; scope2.mb, lb and unknown;
  the stated total and a category list of scope 3; \<open>calculatedTotalEmissions\<close> and
  \<open>statedTotalEmissions.total\<close>; the employees value and the turnover value. Its accuracy
  is 0 when it has no reporting period.
\<close>

theorem identical_datasets:
  assumes "distinct (map wikidataId data)"
      and "\<forall>c \<in> set data. distinct (map (\<lambda>rp. formatYear (rp_endDate rp)) (reportingPeriods c))"
      and "\<forall>c \<in> set data. \<forall>p \<in> set (reportingPeriods c). distinctCategories p"
  shows "\<exists>rs. compareData formatYear data data = Inr rs
           \<and> length rs = length data
           \<and> (\<forall>i < length data.
                 mismatchedFields (rs ! i) = []
                 \<and> (reportingPeriods (data ! i) \<noteq> []
                      \<and> (\<forall>p \<in> set (reportingPeriods (data ! i)). populated p)
                     \<longrightarrow> accuracy (rs ! i) = 100)
                 \<and> (reportingPeriods (data ! i) = [] \<longrightarrow> accuracy (rs ! i) = 0))"
proof -
  let ?rs = "map (companyResult formatYear data) data"
  have self: "companyResult formatYear data c
                = finishResult (foldl (periodStep formatYear c) (initialScoring c) (reportingPeriods c))"
    if "c \<in> set data" for c
    using find_self [where k = wikidataId, OF assms(1) that]
    by (simp add: companyResult_def)
  have mism: "mismatchedFields (companyResult formatYear data c) = []" if c: "c \<in> set data" for c
  proof -
    from assms(2,3) c
    have "mismatchedFields (result (foldl (periodStep formatYear c) (initialScoring c) (reportingPeriods c)))
            = mismatchedFields (result (initialScoring c))"
      by (intro foldl_periodStep_self) auto
    then show ?thesis
      by (simp add: self [OF c] finishResult_def initialScoring_def)
  qed
  have acc: "accuracy (companyResult formatYear data c) = 100"
    if c: "c \<in> set data" and ne: "reportingPeriods c \<noteq> []"
      and pop: "\<forall>p \<in> set (reportingPeriods c). populated p" for c
  proof -
    let ?st = "foldl (periodStep formatYear c) (initialScoring c) (reportingPeriods c)"
    from assms(2,3) c pop
    have "matchedFieldCount ?st = totalFieldCount ?st
          \<and> totalFieldCount (initialScoring c) + 9 * length (reportingPeriods c) \<le> totalFieldCount ?st"
      by (intro foldl_periodStep_populated) (auto simp add: initialScoring_counts)
    moreover from ne have "0 < 9 * length (reportingPeriods c)" by simp
    ultimately have "matchedFieldCount ?st = totalFieldCount ?st" "0 < totalFieldCount ?st"
      by linarith+
    then have "calculateAccuracy ?st = 100"
      by (rule calculateAccuracy_full)
    then show ?thesis
      by (simp add: self [OF c] finishResult_def)
  qed
  have none: "accuracy (companyResult formatYear data c) = 0"
    if c: "c \<in> set data" and e: "reportingPeriods c = []" for c
    by (simp add: self [OF c] e finishResult_def calculateAccuracy_def initialScoring_counts)
  have "compareData formatYear data data = Inr ?rs"
    by (rule compareData_closed)
  moreover have "length ?rs = length data" by simp
  moreover have "\<forall>i < length data.
                 mismatchedFields (?rs ! i) = []
                 \<and> (reportingPeriods (data ! i) \<noteq> []
                      \<and> (\<forall>p \<in> set (reportingPeriods (data ! i)). populated p)
                     \<longrightarrow> accuracy (?rs ! i) = 100)
                 \<and> (reportingPeriods (data ! i) = [] \<longrightarrow> accuracy (?rs ! i) = 0)"
    using mism acc none by simp
  ultimately show ?thesis by blast
qed

text \<open>
  An instance: a dataset of two companies. Bolt has one period, fully populated (with a
  \<open>null\<close> for scope2.unknown, which is defined and equal to itself): its mismatch list is
  empty and its accuracy 100. Acme has no period: its mismatch list is empty and its
  accuracy 0.
\<close>

theorem identical_datasets_witness:
  "\<exists>rs. compareData (take 4) [examplePopulatedCompany, exampleAbsent]
           [examplePopulatedCompany, exampleAbsent] = Inr rs
      \<and> mismatchedFields (rs ! 0) = [] \<and> accuracy (rs ! 0) = 100
      \<and> mismatchedFields (rs ! 1) = [] \<and> accuracy (rs ! 1) = 0"
proof -
  let ?d = "[examplePopulatedCompany, exampleAbsent]"
  have cats: "distinctCategories examplePopulatedPeriod"
    by (simp add: distinctCategories_def scope3Of_def examplePopulatedPeriod_def)
  have pop: "populated examplePopulatedPeriod"
    by (simp add: populated_def countedFieldsOnly_def scope1Of_def scope2Of_def scope3Of_def
          fieldOf_def scopeField_def scope3StatedOf_def statedOf_def employeesOf_def
          turnoverValueOf_def examplePopulatedPeriod_def exampleScopeTotal_def)
  have h1: "distinct (map wikidataId ?d)"
    by (simp add: examplePopulatedCompany_def exampleAbsent_def)
  have h2: "\<forall>c \<in> set ?d. distinct (map (\<lambda>rp. take 4 (rp_endDate rp)) (reportingPeriods c))"
    by (simp add: examplePopulatedCompany_def exampleAbsent_def)
  have h3: "\<forall>c \<in> set ?d. \<forall>p \<in> set (reportingPeriods c). distinctCategories p"
    by (simp add: examplePopulatedCompany_def exampleAbsent_def cats)
  from identical_datasets [OF h1 h2 h3]
  obtain rs where rs: "compareData (take 4) ?d ?d = Inr rs"
    and all: "\<forall>i < length ?d.
                 mismatchedFields (rs ! i) = []
                 \<and> (reportingPeriods (?d ! i) \<noteq> []
                      \<and> (\<forall>p \<in> set (reportingPeriods (?d ! i)). populated p)
                     \<longrightarrow> accuracy (rs ! i) = 100)
                 \<and> (reportingPeriods (?d ! i) = [] \<longrightarrow> accuracy (rs ! i) = 0)"
    by blast
  from all [rule_format, of 0]
  have r0: "mismatchedFields (rs ! 0) = []"
    "reportingPeriods examplePopulatedCompany \<noteq> []
       \<and> (\<forall>p \<in> set (reportingPeriods examplePopulatedCompany). populated p)
     \<longrightarrow> accuracy (rs ! 0) = 100"
    by simp_all
  from all [rule_format, of 1]
  have r1: "mismatchedFields (rs ! 1) = []"
    "reportingPeriods exampleAbsent = [] \<longrightarrow> accuracy (rs ! 1) = 0"
    by simp_all
  have "reportingPeriods examplePopulatedCompany \<noteq> []
       \<and> (\<forall>p \<in> set (reportingPeriods examplePopulatedCompany). populated p)"
    by (simp add: examplePopulatedCompany_def pop)
  with r0(2) have a0: "accuracy (rs ! 0) = 100" by blast
  have "reportingPeriods exampleAbsent = []"
    by (simp add: exampleAbsent_def)
  with r1(2) have a1: "accuracy (rs ! 1) = 0" by blast
  from rs r0(1) a0 r1(1) a1 show ?thesis by blast
qed

text \<open>
  Claim C2 as stated fails twice. Acme with the single field scope1.total, compared with
  itself, has 1 match against the denominator 9: its accuracy is the double read from
  11.11, which is below 12, not 100. And a company with two periods in the same year (totals 100 and 200),
  compared with itself, has its second period aligned with the first: the mismatch list
  is not empty, and the accuracy is the double read from 5.56.
\<close>

theorem identical_not_100_nor_clean:
  "compareData (take 4) [exampleScope1Company 100] [exampleScope1Company 100] =
     Inr [\<lparr>res_name = ''Acme'', matchedFields = [''scope1.total: 2022''],
            mismatchedFields = [], accuracy = parseFloat 1111,
            res_note = Val ''All data matches between production and staging'',
            inStaging = Undefined\<rparr>]
   \<and> parseFloat 1111 \<le> 12
   \<and> compareData (take 4) [exampleTwoPeriods] [exampleTwoPeriods] =
     Inr [\<lparr>res_name = ''Acme'', matchedFields = [''scope1.total: 2022''],
            mismatchedFields = [''scope1.total: 2022''], accuracy = parseFloat 556,
            res_note = Val ''Partial mismatch or missing data between production and staging'',
            inStaging = Undefined\<rparr>]"
  using exampleScope1_equal parseFloat_1111_below exampleTwoPeriods_eval by (intro conjI)

subsection \<open>The totals\<close>

text \<open>
  Claim C3, as the code has it. For \<open>statedTotalEmissions.total\<close> of scope 3, for
  \<open>calculatedTotalEmissions\<close> and for the overall \<open>statedTotalEmissions.total\<close>, the
  comparison adds exactly one matched entry when the two values are strictly equal and
  neither \<open>null\<close> nor \<open>undefined\<close>, exactly one mismatch entry when they are not strictly
  equal, and no entry when both are \<open>null\<close> or both are absent.
\<close>

theorem totals_match_rule:
  "(\<exists>n r'. compareScope3 prodScope3 stageScope3 r year = Inr (n, r')
       \<and> count_list (matchedFields r') (''scope3.statedTotalEmissions.total: '' @ year)
           = count_list (matchedFields r) (''scope3.statedTotalEmissions.total: '' @ year)
             + (if scope3StatedOf prodScope3 = scope3StatedOf stageScope3
                   \<and> notNullish (scope3StatedOf prodScope3) then 1 else 0)
       \<and> count_list (mismatchedFields r') (''scope3.statedTotalEmissions.total: '' @ year)
           = count_list (mismatchedFields r) (''scope3.statedTotalEmissions.total: '' @ year)
             + (if scope3StatedOf prodScope3 \<noteq> scope3StatedOf stageScope3 then 1 else 0))
   \<and> (\<exists>n r'. compareTotalEmissions prodEmissions stageEmissions r year = (n, r')
       \<and> n = (if optChain prodEmissions em_calculatedTotalEmissions
                    = optChain stageEmissions em_calculatedTotalEmissions
                  \<and> notNullish (optChain prodEmissions em_calculatedTotalEmissions) then 1 else 0)
             + (if statedOf prodEmissions = statedOf stageEmissions
                  \<and> notNullish (statedOf prodEmissions) then 1 else 0)
       \<and> count_list (matchedFields r') (''calculatedTotalEmissions: '' @ year)
           = count_list (matchedFields r) (''calculatedTotalEmissions: '' @ year)
             + (if optChain prodEmissions em_calculatedTotalEmissions
                    = optChain stageEmissions em_calculatedTotalEmissions
                  \<and> notNullish (optChain prodEmissions em_calculatedTotalEmissions) then 1 else 0)
       \<and> count_list (mismatchedFields r') (''calculatedTotalEmissions: '' @ year)
           = count_list (mismatchedFields r) (''calculatedTotalEmissions: '' @ year)
             + (if optChain prodEmissions em_calculatedTotalEmissions
                    \<noteq> optChain stageEmissions em_calculatedTotalEmissions then 1 else 0)
       \<and> count_list (matchedFields r') (''statedTotalEmissions.total: '' @ year)
           = count_list (matchedFields r) (''statedTotalEmissions.total: '' @ year)
             + (if statedOf prodEmissions = statedOf stageEmissions
                  \<and> notNullish (statedOf prodEmissions) then 1 else 0)
       \<and> count_list (mismatchedFields r') (''statedTotalEmissions.total: '' @ year)
           = count_list (mismatchedFields r) (''statedTotalEmissions.total: '' @ year)
             + (if statedOf prodEmissions \<noteq> statedOf stageEmissions then 1 else 0))"
proof -
  have l3: "''scope3.statedTotalEmissions.total: '' @ year = scope3StatedLabel year"
    by (simp add: scope3StatedLabel_def)
  have lc: "''calculatedTotalEmissions: '' @ year = calculatedLabel year"
    by (simp add: calculatedLabel_def)
  have ls: "''statedTotalEmissions.total: '' @ year = statedLabel year"
    by (simp add: statedLabel_def)
  have n: "length (totalEmissionsMatched prodEmissions stageEmissions year)
      = (if optChain prodEmissions em_calculatedTotalEmissions
                    = optChain stageEmissions em_calculatedTotalEmissions
                  \<and> notNullish (optChain prodEmissions em_calculatedTotalEmissions) then 1 else 0)
             + (if statedOf prodEmissions = statedOf stageEmissions
                  \<and> notNullish (statedOf prodEmissions) then 1 else 0)"
    by (auto simp add: totalEmissionsMatched_def matchEntry_def)
  have A: "\<exists>n r'. compareScope3 prodScope3 stageScope3 r year = Inr (n, r')
       \<and> count_list (matchedFields r') (scope3StatedLabel year)
           = count_list (matchedFields r) (scope3StatedLabel year)
             + (if scope3StatedOf prodScope3 = scope3StatedOf stageScope3
                   \<and> notNullish (scope3StatedOf prodScope3) then 1 else 0)
       \<and> count_list (mismatchedFields r') (scope3StatedLabel year)
           = count_list (mismatchedFields r) (scope3StatedLabel year)
             + (if scope3StatedOf prodScope3 \<noteq> scope3StatedOf stageScope3 then 1 else 0)"
    by (simp add: compareScope3_closed count_scope3Matched count_scope3Mismatched)
  have B: "\<exists>n r'. compareTotalEmissions prodEmissions stageEmissions r year = (n, r')
       \<and> n = (if optChain prodEmissions em_calculatedTotalEmissions
                    = optChain stageEmissions em_calculatedTotalEmissions
                  \<and> notNullish (optChain prodEmissions em_calculatedTotalEmissions) then 1 else 0)
             + (if statedOf prodEmissions = statedOf stageEmissions
                  \<and> notNullish (statedOf prodEmissions) then 1 else 0)
       \<and> count_list (matchedFields r') (calculatedLabel year)
           = count_list (matchedFields r) (calculatedLabel year)
             + (if optChain prodEmissions em_calculatedTotalEmissions
                    = optChain stageEmissions em_calculatedTotalEmissions
                  \<and> notNullish (optChain prodEmissions em_calculatedTotalEmissions) then 1 else 0)
       \<and> count_list (mismatchedFields r') (calculatedLabel year)
           = count_list (mismatchedFields r) (calculatedLabel year)
             + (if optChain prodEmissions em_calculatedTotalEmissions
                    \<noteq> optChain stageEmissions em_calculatedTotalEmissions then 1 else 0)
       \<and> count_list (matchedFields r') (statedLabel year)
           = count_list (matchedFields r) (statedLabel year)
             + (if statedOf prodEmissions = statedOf stageEmissions
                  \<and> notNullish (statedOf prodEmissions) then 1 else 0)
       \<and> count_list (mismatchedFields r') (statedLabel year)
           = count_list (mismatchedFields r) (statedLabel year)
             + (if statedOf prodEmissions \<noteq> statedOf stageEmissions then 1 else 0)"
    by (simp only: compareTotalEmissions_closed n prod.inject simp_thms ex_simps)
       (simp add: count_totalEmissionsMatched count_totalEmissionsMismatched)
  show ?thesis
    unfolding l3 lc ls using A B by (rule conjI)
qed

text \<open>
  An instance: the calculated totals are both 120 (a match), the stated totals are \<open>null\<close>
  against 130 (a mismatch), and the stated totals of scope 3 are both 70 (a match).
\<close>

theorem totals_match_rule_witness:
  "compareTotalEmissions (Val exampleProdTotals) (Val exampleStageTotals) exampleResult ''2022''
     = (1, exampleResult\<lparr>matchedFields := [''calculatedTotalEmissions: 2022''],
                          mismatchedFields := [''statedTotalEmissions.total: 2022'']\<rparr>)
   \<and> compareScope3 (em_scope3 exampleProdTotals) (em_scope3 exampleStageTotals) exampleResult ''2022''
     = Inr (1, exampleResult\<lparr>matchedFields := [''scope3.statedTotalEmissions.total: 2022'']\<rparr>)"
proof -
  from totals_match_rule [of "em_scope3 exampleProdTotals" "em_scope3 exampleStageTotals"
      exampleResult "''2022''" "Val exampleProdTotals" "Val exampleStageTotals"]
  obtain n r' where
    "compareScope3 (em_scope3 exampleProdTotals) (em_scope3 exampleStageTotals) exampleResult ''2022''
       = Inr (n, r')"
    "count_list (matchedFields r') ''scope3.statedTotalEmissions.total: 2022'' = 1"
    by (auto simp add: exampleProdTotals_def exampleStageTotals_def exampleResult_def
          scope3StatedOf_def)
  then show ?thesis
    by (simp add: compareTotalEmissions_def compareScope3_def scope3StatedTotal_def
          exampleProdTotals_def exampleStageTotals_def exampleResult_def Let_def
          pushMatched_def pushMismatched_def calculatedLabel_def statedLabel_def
          scope3StatedLabel_def)
qed

text \<open>
  Claim C3 as stated fails: when both values are \<open>null\<close>, no mismatch entry is recorded
  by either comparison, and the result is returned as it was.
\<close>

theorem both_null_no_mismatch:
  "compareTotalEmissions (Val exampleNullTotals) (Val exampleNullTotals) exampleResult ''2022''
     = (0, exampleResult)
   \<and> compareScope3 (em_scope3 exampleNullTotals) (em_scope3 exampleNullTotals) exampleResult ''2022''
     = Inr (0, exampleResult)
   \<and> mismatchedFields exampleResult = []"
  by (simp add: compareTotalEmissions_def compareScope3_def scope3StatedTotal_def
        exampleNullTotals_def exampleResult_def Let_def)

subsection \<open>The scoped columns of the CSV\<close>

text \<open>
  Claim C4 at a failing input. Production reports 100 for scope 1 and staging 200. The
  comparison records the mismatch "scope1.total: 2022", and the row shows "N/A" in the
  column \<open>scope1\<close>, not the two values: the mismatch entries are strings, so the map
  that \<open>generateCSV\<close> builds from them has the one key "undefined". For every result, a
  scoped column is "Yes" when a matched entry starts with its prefix and "N/A" otherwise.
\<close>

theorem mismatch_column_is_NA:
  "(\<exists>rs. compareData (take 4) [exampleScope1Company 200] [exampleScope1Company 100] = Inr rs
       \<and> map mismatchedFields rs = [[''scope1.total: 2022'']]
       \<and> map csv_scope1 (generateCSV rs) = [''N/A''])
   \<and> csv_scope1 (csvRowOf r) =
        (if \<exists>m \<in> set (matchedFields r). startsWith m ''scope1'' then ''Yes'' else ''N/A'')
   \<and> csv_scope2 (csvRowOf r) =
        (if \<exists>m \<in> set (matchedFields r). startsWith m ''scope2'' then ''Yes'' else ''N/A'')
   \<and> csv_scope3 (csvRowOf r) =
        (if \<exists>m \<in> set (matchedFields r). startsWith m ''scope3'' then ''Yes'' else ''N/A'')
   \<and> csv_employees (csvRowOf r) =
        (if \<exists>m \<in> set (matchedFields r). startsWith m ''employees'' then ''Yes'' else ''N/A'')
   \<and> csv_economy (csvRowOf r) =
        (if \<exists>m \<in> set (matchedFields r). startsWith m ''economy'' then ''Yes'' else ''N/A'')"
proof -
  have cols:
    "csv_scope1 (csvRowOf r) =
        (if \<exists>m \<in> set (matchedFields r). startsWith m ''scope1'' then ''Yes'' else ''N/A'')"
    "csv_scope2 (csvRowOf r) =
        (if \<exists>m \<in> set (matchedFields r). startsWith m ''scope2'' then ''Yes'' else ''N/A'')"
    "csv_scope3 (csvRowOf r) =
        (if \<exists>m \<in> set (matchedFields r). startsWith m ''scope3'' then ''Yes'' else ''N/A'')"
    "csv_employees (csvRowOf r) =
        (if \<exists>m \<in> set (matchedFields r). startsWith m ''employees'' then ''Yes'' else ''N/A'')"
    "csv_economy (csvRowOf r) =
        (if \<exists>m \<in> set (matchedFields r). startsWith m ''economy'' then ''Yes'' else ''N/A'')"
    for r
    by (simp_all add: csvRowOf_def resolve_on_strings Let_def)
  have "\<exists>rs. compareData (take 4) [exampleScope1Company 200] [exampleScope1Company 100] = Inr rs
       \<and> map mismatchedFields rs = [[''scope1.total: 2022'']]
       \<and> map csv_scope1 (generateCSV rs) = [''N/A'']"
    by (simp add: exampleScope1_differs generateCSV_def cols)
  with cols show ?thesis by blast
qed

subsection \<open>Companies absent from staging\<close>

text \<open>
  Claim C5. A production company whose \<open>wikidataId\<close> no staging company has gets the fixed
  result: no matched field, the single mismatch entry "Company does not exist in staging",
  accuracy 0 and the note on its absence; nothing else is compared for it. The results are
  one per production company, in order and under its name, so a company that only the
  staging data has gets no result.
\<close>

theorem absent_company_result:
  "\<exists>rs. compareData formatYear stagingData productionData = Inr rs
      \<and> length rs = length productionData
      \<and> map res_name rs = map company_name productionData
      \<and> (\<forall>i < length productionData.
            (\<forall>comp \<in> set stagingData. wikidataId comp \<noteq> wikidataId (productionData ! i)) \<longrightarrow>
              rs ! i = \<lparr>res_name = company_name (productionData ! i), matchedFields = [],
                        mismatchedFields = [''Company does not exist in staging''], accuracy = 0,
                        res_note = Val ''Exists in production but not in staging'',
                        inStaging = Undefined\<rparr>)"
proof -
  let ?rs = "map (companyResult formatYear stagingData) productionData"
  have absent: "companyResult formatYear stagingData p = notInStaging p"
    if "\<forall>comp \<in> set stagingData. wikidataId comp \<noteq> wikidataId p" for p
  proof -
    from that have "List.find (\<lambda>comp. wikidataId comp = wikidataId p) stagingData = None"
      by (simp add: find_None_iff_ball)
    then show ?thesis by (simp add: companyResult_def)
  qed
  have "compareData formatYear stagingData productionData = Inr ?rs"
    by (rule compareData_closed)
  moreover have "length ?rs = length productionData" by simp
  moreover have "map res_name ?rs = map company_name productionData"
    by (simp add: companyResult_frame)
  moreover have "\<forall>i < length productionData.
      (\<forall>comp \<in> set stagingData. wikidataId comp \<noteq> wikidataId (productionData ! i)) \<longrightarrow>
        ?rs ! i = \<lparr>res_name = company_name (productionData ! i), matchedFields = [],
                    mismatchedFields = [''Company does not exist in staging''], accuracy = 0,
                    res_note = Val ''Exists in production but not in staging'',
                    inStaging = Undefined\<rparr>"
    by (simp add: absent notInStaging_def)
  ultimately show ?thesis by blast
qed

text \<open>
  An instance: production holds only Acme (Q1), staging only Bolt (Q2). The one result is
  Acme's, with the fixed entries; Bolt gets none.
\<close>

theorem absent_company_result_witness:
  "compareData (take 4) [exampleOther] [exampleAbsent] =
     Inr [\<lparr>res_name = ''Acme'', matchedFields = [],
           mismatchedFields = [''Company does not exist in staging''], accuracy = 0,
           res_note = Val ''Exists in production but not in staging'', inStaging = Undefined\<rparr>]"
proof -
  from absent_company_result [of "take 4" "[exampleOther]" "[exampleAbsent]"]
  obtain rs where rs: "compareData (take 4) [exampleOther] [exampleAbsent] = Inr rs"
      "length rs = 1"
      "\<forall>i < 1. (\<forall>comp \<in> set [exampleOther]. wikidataId comp \<noteq> wikidataId ([exampleAbsent] ! i)) \<longrightarrow>
          rs ! i = \<lparr>res_name = company_name ([exampleAbsent] ! i), matchedFields = [],
                        mismatchedFields = [''Company does not exist in staging''], accuracy = 0,
                        res_note = Val ''Exists in production but not in staging'',
                        inStaging = Undefined\<rparr>"
    by auto
  from rs(3) have "rs ! 0 = \<lparr>res_name = ''Acme'', matchedFields = [],
           mismatchedFields = [''Company does not exist in staging''], accuracy = 0,
           res_note = Val ''Exists in production but not in staging'', inStaging = Undefined\<rparr>"
    by (simp add: exampleOther_def exampleAbsent_def)
  moreover from rs(2) have "rs = [rs ! 0]"
    by (cases rs) simp_all
  ultimately show ?thesis using rs(1) by simp
qed

subsection \<open>Scope 1 and scope 2\<close>

text \<open>
  Claim C6. \<open>compareEmissions\<close> walks the four fields total, mb, lb, unknown. A field that
  both scopes define (not \<open>undefined\<close>) gives the entry "<scope>.<field>: <year>", in
  \<open>matchedFields\<close> when the two values are strictly equal and in \<open>mismatchedFields\<close>
  when they are not; a field that either side omits gives no entry. The count returned is
  the number of matches. In the loop of \<open>compareData\<close>, on an aligned pair of periods,
  the step for scope 1 compares the two \<^verbatim>\<open>emissions?.scope1\<close> blocks under the name
  "scope1", appends their entries to the result, adds the number of matches to
  \<open>matchedFieldCount\<close> and 1 to \<open>totalFieldCount\<close>; the step for scope 2 does the same
  with the \<^verbatim>\<open>emissions?.scope2\<close> blocks, the name "scope2" and 3. Here \<open>fieldOf x f\<close>
  is \<^verbatim>\<open>x?.[f]\<close> and \<open>scope1Of p\<close> is \<^verbatim>\<open>p.emissions?.scope1\<close>.
\<close>

theorem scope_fields_and_weights:
  "compareEmissions scopeName prodScope stageScope r year =
     (length (filter (\<lambda>f. fieldOf prodScope f \<noteq> Undefined
                     \<and> fieldOf stageScope f \<noteq> Undefined
                     \<and> fieldOf prodScope f = fieldOf stageScope f)
           [''total'', ''mb'', ''lb'', ''unknown'']),
      r\<lparr>matchedFields := matchedFields r
           @ map (\<lambda>f. scopeName @ ''.'' @ f @ '': '' @ year)
               (filter (\<lambda>f. fieldOf prodScope f \<noteq> Undefined
                            \<and> fieldOf stageScope f \<noteq> Undefined
                            \<and> fieldOf prodScope f = fieldOf stageScope f)
                  [''total'', ''mb'', ''lb'', ''unknown'']),
         mismatchedFields := mismatchedFields r
           @ map (\<lambda>f. scopeName @ ''.'' @ f @ '': '' @ year)
               (filter (\<lambda>f. fieldOf prodScope f \<noteq> Undefined
                            \<and> fieldOf stageScope f \<noteq> Undefined
                            \<and> fieldOf prodScope f \<noteq> fieldOf stageScope f)
                  [''total'', ''mb'', ''lb'', ''unknown''])\<rparr>)
   \<and> scope1Step prodReportingPeriod stageReportingPeriod year st =
       \<lparr>matchedFieldCount =
          matchedFieldCount st
            + length (filter (\<lambda>f. fieldOf (scope1Of prodReportingPeriod) f \<noteq> Undefined
                                  \<and> fieldOf (scope1Of stageReportingPeriod) f \<noteq> Undefined
                                  \<and> fieldOf (scope1Of prodReportingPeriod) f
                                      = fieldOf (scope1Of stageReportingPeriod) f)
                        [''total'', ''mb'', ''lb'', ''unknown'']),
        totalFieldCount = totalFieldCount st + 1,
        result =
          (result st)\<lparr>matchedFields := matchedFields (result st)
             @ map (\<lambda>f. ''scope1.'' @ f @ '': '' @ year)
                 (filter (\<lambda>f. fieldOf (scope1Of prodReportingPeriod) f \<noteq> Undefined
                              \<and> fieldOf (scope1Of stageReportingPeriod) f \<noteq> Undefined
                              \<and> fieldOf (scope1Of prodReportingPeriod) f
                                  = fieldOf (scope1Of stageReportingPeriod) f)
                    [''total'', ''mb'', ''lb'', ''unknown'']),
           mismatchedFields := mismatchedFields (result st)
             @ map (\<lambda>f. ''scope1.'' @ f @ '': '' @ year)
                 (filter (\<lambda>f. fieldOf (scope1Of prodReportingPeriod) f \<noteq> Undefined
                              \<and> fieldOf (scope1Of stageReportingPeriod) f \<noteq> Undefined
                              \<and> fieldOf (scope1Of prodReportingPeriod) f
                                  \<noteq> fieldOf (scope1Of stageReportingPeriod) f)
                    [''total'', ''mb'', ''lb'', ''unknown''])\<rparr>\<rparr>
   \<and> scope2Step prodReportingPeriod stageReportingPeriod year st =
       \<lparr>matchedFieldCount =
          matchedFieldCount st
            + length (filter (\<lambda>f. fieldOf (scope2Of prodReportingPeriod) f \<noteq> Undefined
                                  \<and> fieldOf (scope2Of stageReportingPeriod) f \<noteq> Undefined
                                  \<and> fieldOf (scope2Of prodReportingPeriod) f
                                      = fieldOf (scope2Of stageReportingPeriod) f)
                        [''total'', ''mb'', ''lb'', ''unknown'']),
        totalFieldCount = totalFieldCount st + 3,
        result =
          (result st)\<lparr>matchedFields := matchedFields (result st)
             @ map (\<lambda>f. ''scope2.'' @ f @ '': '' @ year)
                 (filter (\<lambda>f. fieldOf (scope2Of prodReportingPeriod) f \<noteq> Undefined
                              \<and> fieldOf (scope2Of stageReportingPeriod) f \<noteq> Undefined
                              \<and> fieldOf (scope2Of prodReportingPeriod) f
                                  = fieldOf (scope2Of stageReportingPeriod) f)
                    [''total'', ''mb'', ''lb'', ''unknown'']),
           mismatchedFields := mismatchedFields (result st)
             @ map (\<lambda>f. ''scope2.'' @ f @ '': '' @ year)
                 (filter (\<lambda>f. fieldOf (scope2Of prodReportingPeriod) f \<noteq> Undefined
                              \<and> fieldOf (scope2Of stageReportingPeriod) f \<noteq> Undefined
                              \<and> fieldOf (scope2Of prodReportingPeriod) f
                                  \<noteq> fieldOf (scope2Of stageReportingPeriod) f)
                    [''total'', ''mb'', ''lb'', ''unknown''])\<rparr>\<rparr>"
  unfolding compareEmissions_closed scope1Step_closed scope2Step_closed extend_def
    emissionsMatched_entries emissionsMismatched_entries length_map scope_dot
  by (intro conjI refl)

text \<open>
  An instance: an aligned pair of periods whose scope-1 blocks have total 100 on both
  sides, mb 5 against 6, lb defined in staging only and unknown on neither side. The step
  for scope 1 records one match and one mismatch under the name "scope1", nothing for lb
  and unknown, and takes the counters from 0 and 4 to 1 and 5.
\<close>

theorem scope_fields_and_weights_witness:
  "scope1Step
     \<lparr>rp_endDate = ''2022-12-31'',
      rp_emissions = Val \<lparr>em_scope1 = Val exampleProdScope, em_scope2 = Undefined,
                           em_scope3 = Undefined, em_calculatedTotalEmissions = Undefined,
                           em_statedTotalEmissions = Undefined\<rparr>,
      rp_economy = Undefined\<rparr>
     \<lparr>rp_endDate = ''2022-06-30'',
      rp_emissions = Val \<lparr>em_scope1 = Val exampleStageScope, em_scope2 = Undefined,
                           em_scope3 = Undefined, em_calculatedTotalEmissions = Undefined,
                           em_statedTotalEmissions = Undefined\<rparr>,
      rp_economy = Undefined\<rparr>
     ''2022'' exampleScoring
   = \<lparr>matchedFieldCount = 1, totalFieldCount = 5,
      result = exampleResult\<lparr>matchedFields := [''scope1.total: 2022''],
                 mismatchedFields := [''scope1.mb: 2022'']\<rparr>\<rparr>"
proof -
  let ?p = "\<lparr>rp_endDate = ''2022-12-31'',
      rp_emissions = Val \<lparr>em_scope1 = Val exampleProdScope, em_scope2 = Undefined,
                           em_scope3 = Undefined, em_calculatedTotalEmissions = Undefined,
                           em_statedTotalEmissions = Undefined\<rparr>,
      rp_economy = Undefined\<rparr>"
  let ?s = "\<lparr>rp_endDate = ''2022-06-30'',
      rp_emissions = Val \<lparr>em_scope1 = Val exampleStageScope, em_scope2 = Undefined,
                           em_scope3 = Undefined, em_calculatedTotalEmissions = Undefined,
                           em_statedTotalEmissions = Undefined\<rparr>,
      rp_economy = Undefined\<rparr>"
  note scope_fields_and_weights [where prodReportingPeriod = ?p and stageReportingPeriod = ?s
      and year = "''2022''" and st = exampleScoring, THEN conjunct2, THEN conjunct1]
  then show ?thesis
    by (simp add: scope1Of_def fieldOf_def scopeField_def exampleProdScope_def
          exampleStageScope_def exampleResult_def exampleScoring_def)
qed

subsection \<open>The categories of scope 3\<close>

text \<open>
  Claim C7. When both scope-3 blocks expose a category collection, every production
  category gives one entry "scope3.category=<n>: <year>": in \<open>matchedFields\<close> when the
  first staging category with the same number has a strictly equal total, and in
  \<open>mismatchedFields\<close> when no staging category has that number or the totals differ.
  The entries follow those of the stated total, and each match counts. The denominator
  grows by 1 plus the number of production categories.
\<close>

theorem scope3_categories:
  assumes "optChain (optChain (rp_emissions prodReportingPeriod) em_scope3) s3_categories
             = Val prodCategories"
      and "optChain (optChain (rp_emissions stageReportingPeriod) em_scope3) s3_categories
             = Val stageCategories"
  shows "(\<exists>n0 r0.
            scope3StatedTotal (optChain (rp_emissions prodReportingPeriod) em_scope3)
              (optChain (rp_emissions stageReportingPeriod) em_scope3) year (0, result st) = (n0, r0)
          \<and> scope3Step prodReportingPeriod stageReportingPeriod year st =
              Inr \<lparr>matchedFieldCount =
                     matchedFieldCount st
                       + (n0 + length (filter (catMatches stageCategories) prodCategories)),
                   totalFieldCount = totalFieldCount st + (1 + length prodCategories),
                   result =
                     r0\<lparr>matchedFields := matchedFields r0
                          @ map (\<lambda>c. ''scope3.category='' @ showInt (cat_category c) @ '': '' @ year)
                              (filter (catMatches stageCategories) prodCategories),
                        mismatchedFields := mismatchedFields r0
                          @ map (\<lambda>c. ''scope3.category='' @ showInt (cat_category c) @ '': '' @ year)
                              (filter (\<lambda>c. \<not> catMatches stageCategories c) prodCategories)\<rparr>\<rparr>)
       \<and> (\<forall>c. catMatches stageCategories c \<longleftrightarrow>
              (\<exists>sc. List.find (\<lambda>cat. cat_category cat = cat_category c) stageCategories = Some sc
                    \<and> cat_total c = cat_total sc))"
proof -
  have len: "categoriesLength prodReportingPeriod = length prodCategories"
    by (simp add: categoriesLength_def assms(1))
  obtain n0 r0 where st0:
    "scope3StatedTotal (optChain (rp_emissions prodReportingPeriod) em_scope3)
       (optChain (rp_emissions stageReportingPeriod) em_scope3) year (0, result st) = (n0, r0)"
    by (cases "scope3StatedTotal (optChain (rp_emissions prodReportingPeriod) em_scope3)
       (optChain (rp_emissions stageReportingPeriod) em_scope3) year (0, result st)")
  have "scope3Step prodReportingPeriod stageReportingPeriod year st =
          Inr \<lparr>matchedFieldCount =
                 matchedFieldCount st + (n0 + length (filter (catMatches stageCategories) prodCategories)),
               totalFieldCount = totalFieldCount st + (1 + length prodCategories),
               result = extend r0
                  (map (\<lambda>c. categoryLabel c year) (filter (catMatches stageCategories) prodCategories))
                  (map (\<lambda>c. categoryLabel c year)
                     (filter (\<lambda>c. \<not> catMatches stageCategories c) prodCategories))\<rparr>"
    by (simp add: scope3Step_def compareScope3_categories [OF assms] st0 len)
  then show ?thesis
    using st0 by (simp add: extend_def categoryLabel_def catMatches_iff)
qed

text \<open>
  An instance, the example of the specification: production has the categories 1, 2, 3 with
  totals 10, 20, 30 and staging the categories 1, 2 with totals 10, 25. Category 1 matches,
  2 and 3 are mismatches, and the denominator grows by 1 + 3.
\<close>

theorem scope3_categories_witness:
  "scope3Step
     \<lparr>rp_endDate = ''2022-12-31'', rp_emissions = Val (exampleEmissions exampleProdScope3),
      rp_economy = Undefined\<rparr>
     \<lparr>rp_endDate = ''2022-06-30'', rp_emissions = Val (exampleEmissions exampleStageScope3),
      rp_economy = Undefined\<rparr>
     ''2022'' exampleScoring
   = Inr \<lparr>matchedFieldCount = 1, totalFieldCount = 8,
          result = exampleResult\<lparr>matchedFields := [''scope3.category=1: 2022''],
                     mismatchedFields := [''scope3.category=2: 2022'', ''scope3.category=3: 2022'']\<rparr>\<rparr>"
proof -
  let ?p = "\<lparr>rp_endDate = ''2022-12-31'', rp_emissions = Val (exampleEmissions exampleProdScope3),
      rp_economy = Undefined\<rparr>"
  let ?s = "\<lparr>rp_endDate = ''2022-06-30'', rp_emissions = Val (exampleEmissions exampleStageScope3),
      rp_economy = Undefined\<rparr>"
  have p: "optChain (optChain (rp_emissions ?p) em_scope3) s3_categories
             = Val [\<lparr>cat_category = 1, cat_total = Val 10\<rparr>,
                    \<lparr>cat_category = 2, cat_total = Val 20\<rparr>,
                    \<lparr>cat_category = 3, cat_total = Val 30\<rparr>]"
    by (simp add: exampleEmissions_def exampleProdScope3_def)
  have s: "optChain (optChain (rp_emissions ?s) em_scope3) s3_categories
             = Val [\<lparr>cat_category = 1, cat_total = Val 10\<rparr>,
                    \<lparr>cat_category = 2, cat_total = Val 25\<rparr>]"
    by (simp add: exampleEmissions_def exampleStageScope3_def)
  have showInt: "showInt 1 = ''1''" "showInt 2 = ''2''" "showInt 3 = ''3''"
    by (simp_all add: showInt_def showNat.simps)
  from scope3_categories [OF p s, of "''2022''" exampleScoring]
  show ?thesis
    by (simp add: scope3StatedTotal_def exampleEmissions_def exampleProdScope3_def
          exampleStageScope3_def exampleScoring_def exampleResult_def catMatches_def showInt
          notNullish_def)
qed

subsection \<open>Reporting periods absent from staging\<close>

text \<open>
  Claim C8. When no staging period of the company has the year of the production period,
  the round of the loop appends "Reporting period: <year>" to \<open>mismatchedFields\<close> and
  changes nothing else: \<open>matchedFields\<close>, \<open>matchedFieldCount\<close> and
  \<open>totalFieldCount\<close> keep their values.
\<close>

theorem missing_period_only_mismatch:
  assumes "\<forall>rp \<in> set (reportingPeriods sc).
             formatYear (rp_endDate rp) \<noteq> formatYear (rp_endDate prodReportingPeriod)"
  shows "\<exists>st'. comparePeriod formatYear (Val sc) prodReportingPeriod st = Inr st'
           \<and> mismatchedFields (result st') =
               mismatchedFields (result st)
                 @ [''Reporting period: '' @ formatYear (rp_endDate prodReportingPeriod)]
           \<and> matchedFields (result st') = matchedFields (result st)
           \<and> matchedFieldCount st' = matchedFieldCount st
           \<and> totalFieldCount st' = totalFieldCount st"
proof -
  from assms have "List.find (\<lambda>rp. formatYear (rp_endDate rp) = formatYear (rp_endDate prodReportingPeriod))
                     (reportingPeriods sc) = None"
    by (simp add: find_None_iff_ball)
  then show ?thesis
    by (simp add: comparePeriod_closed periodStep_def periodLabel_def)
qed

text \<open>
  An instance: staging has only a 2021 period, production's period ends in 2022 (the year
  being the first four characters of the date here).
\<close>

theorem missing_period_only_mismatch_witness:
  "\<exists>st'. comparePeriod (take 4) (Val exampleStage2021) examplePeriod2022
            \<lparr>matchedFieldCount = 3, totalFieldCount = 9,
             result = \<lparr>res_name = ''Acme'', matchedFields = [], mismatchedFields = [],
                        accuracy = 0, res_note = Undefined, inStaging = Undefined\<rparr>\<rparr> = Inr st'
      \<and> mismatchedFields (result st') = [''Reporting period: 2022'']
      \<and> matchedFields (result st') = []
      \<and> matchedFieldCount st' = 3 \<and> totalFieldCount st' = 9"
proof -
  have "\<forall>rp \<in> set (reportingPeriods exampleStage2021).
          take 4 (rp_endDate rp) \<noteq> take 4 (rp_endDate examplePeriod2022)"
    by (simp add: exampleStage2021_def examplePeriod2021_def examplePeriod2022_def)
  from missing_period_only_mismatch [OF this,
      where st = "\<lparr>matchedFieldCount = 3, totalFieldCount = 9,
             result = \<lparr>res_name = ''Acme'', matchedFields = [], mismatchedFields = [],
                        accuracy = 0, res_note = Undefined, inStaging = Undefined\<rparr>\<rparr>"]
  show ?thesis
    by (simp add: examplePeriod2022_def)
qed

subsection \<open>No exception, and the fields that are absent or null\<close>




subsection \<open>The column inStaging\<close>

text \<open>
  Claim C10. Every row that \<open>generateCSV\<close> builds from the results of \<open>compareData\<close>
  has "No" in the column \<open>inStaging\<close>: no result carries the property.
\<close>

theorem inStaging_always_No:
  "\<exists>rs. compareData formatYear stagingData productionData = Inr rs
      \<and> (\<forall>row \<in> set (generateCSV rs). csv_inStaging row = ''No'')"
  by (auto simp add: compareData_closed generateCSV_def csvRowOf_def companyResult_frame Let_def)

text \<open>
  An instance: Acme is in both datasets, with the same data, and its row still says "No".
\<close>

theorem inStaging_always_No_witness:
  "\<exists>rs. compareData (take 4) [exampleScope1Company 100] [exampleScope1Company 100] = Inr rs
      \<and> map res_name rs = [''Acme'']
      \<and> map csv_inStaging (generateCSV rs) = [''No'']"
proof -
  from inStaging_always_No [of "take 4" "[exampleScope1Company 100]" "[exampleScope1Company 100]"]
  obtain rs where rs:
    "compareData (take 4) [exampleScope1Company 100] [exampleScope1Company 100] = Inr rs"
    "\<forall>row \<in> set (generateCSV rs). csv_inStaging row = ''No''"
    by blast
  from rs(1) have "length rs = 1" "map res_name rs = [''Acme'']"
    by (auto simp add: exampleScope1_equal)
  moreover from this rs(2) have "map csv_inStaging (generateCSV rs) = [''No'']"
    by (cases rs) (simp_all add: generateCSV_def)
  ultimately show ?thesis using rs(1) by (intro exI [of _ rs] conjI)
qed

end
